theory Spec2Isabelle
  imports Main "HOL-Library.Word"
begin

section \<open>The KMC SDLS test application (kmc\_sdls\_test\_app.py)\<close>

text \<open>
  A shallow embedding of the frame model, the argument checks and the apply/process
  orchestration of \<^verbatim>\<open>kmc_sdls_test_app.py\<close>. Python strings are modelled as
  \<^typ>\<open>string\<close> with one \<^typ>\<open>char\<close> per code point, so the model covers strings whose
  code points are below 256. Exceptions are values of the type \<open>error\<close>; a function
  that may raise returns \<open>error + 'a\<close> with \<open>Inl\<close> for the exception.
\<close>

subsection \<open>Exceptions\<close>

datatype error =
    ArgumentTypeError string    \<comment> \<open>\<^verbatim>\<open>argparse.ArgumentTypeError(msg)\<close>\<close>
  | ArgumentException string    \<comment> \<open>\<^verbatim>\<open>class ArgumentException(Exception)\<close>\<close>
  | ValueError                  \<comment> \<open>raised by \<^verbatim>\<open>int\<close> and by \<^verbatim>\<open>unhexlify\<close> on non-ASCII text\<close>
  | BinasciiError               \<comment> \<open>\<^verbatim>\<open>binascii.Error\<close>\<close>
  | ServiceError string         \<comment> \<open>anything the external KMC SDLS client raises\<close>

subsection \<open>The Python built-ins the script calls\<close>

text \<open>\<^verbatim>\<open>str.isspace\<close> on one character, for code points below 256.\<close>

definition isspace :: "char \<Rightarrow> bool" where
  "isspace c = (of_char c \<in> {9, 10, 11, 12, 13, 28, 29, 30, 31, 32, 133, 160 :: nat})"

text \<open>\<^verbatim>\<open>str.rstrip()\<close> with no argument removes the trailing whitespace.\<close>

definition rstrip :: "string \<Rightarrow> string" where
  "rstrip s = rev (dropWhile isspace (rev s))"

text \<open>\<^verbatim>\<open>line.startswith('#')\<close>.\<close>

definition startswith_hash :: "string \<Rightarrow> bool" where
  "startswith_hash line = (case line of [] \<Rightarrow> False | c # _ \<Rightarrow> c = CHR ''#'')"

text \<open>
  \<^verbatim>\<open>str.upper()\<close>, as far as the script depends on it: the result is only compared
  with the ASCII words TC, TM and AOS. The letters a to z go to A to Z. A code point
  from 128 to 255 goes to a non-ASCII code point or (the sharp s) to the two letters SS,
  and neither can appear in one of the three words, so leaving it unchanged gives the
  same comparisons.
\<close>

definition upper_char :: "char \<Rightarrow> char" where
  "upper_char c =
     (case map_of (zip ''abcdefghijklmnopqrstuvwxyz'' ''ABCDEFGHIJKLMNOPQRSTUVWXYZ'') c of
        Some u \<Rightarrow> u
      | None \<Rightarrow> c)"

definition upper :: "string \<Rightarrow> string" where
  "upper s = map upper_char s"

text \<open>
  The whitespace that \<^verbatim>\<open>int(str)\<close> skips at both ends: the ASCII whitespace of C
  (\<^verbatim>\<open>Py_ISSPACE\<close>), and the two whitespace code points between 128 and 255, which
  \<^verbatim>\<open>int\<close> first turns into blanks.
\<close>

definition int_space :: "char \<Rightarrow> bool" where
  "int_space c = (of_char c \<in> {9, 10, 11, 12, 13, 32, 133, 160 :: nat})"

definition int_strip :: "string \<Rightarrow> string" where
  "int_strip s = rev (dropWhile int_space (rev (dropWhile int_space s)))"

definition digit_of :: "char \<Rightarrow> nat option" where
  "digit_of c =
     (if 48 \<le> (of_char c :: nat) \<and> (of_char c :: nat) \<le> 57
      then Some ((of_char c :: nat) - 48) else None)"

text \<open>
  The digits of a literal in base \<open>b\<close>: at least one digit, single underscores allowed
  between digits only. \<open>None\<close> is the \<^verbatim>\<open>ValueError\<close> of an ill-formed literal.
\<close>

fun scan_digits :: "nat \<Rightarrow> string \<Rightarrow> nat list option" where
  "scan_digits b [] = None"
| "scan_digits b [c] =
     (case digit_of c of None \<Rightarrow> None
      | Some d \<Rightarrow> if d < b then Some [d] else None)"
| "scan_digits b (c # c' # cs) =
     (case digit_of c of None \<Rightarrow> None
      | Some d \<Rightarrow>
          if d < b
          then map_option ((#) d)
                 (if c' = CHR ''_'' then scan_digits b cs else scan_digits b (c' # cs))
          else None)"

definition digits_value :: "nat \<Rightarrow> nat list \<Rightarrow> nat" where
  "digits_value b ds = foldl (\<lambda>a d. a * b + d) 0 ds"

text \<open>The sign of a literal, split off: \<open>(negative, rest)\<close>.\<close>

definition split_sign :: "string \<Rightarrow> bool \<times> string" where
  "split_sign s =
     (case s of
        [] \<Rightarrow> (False, [])
      | c # r \<Rightarrow>
          if c = CHR ''-'' then (True, r)
          else if c = CHR ''+'' then (False, r)
          else (False, s))"

text \<open>
  CPython refuses a decimal literal of more than 4300 digits (the default of
  \<^verbatim>\<open>sys.set_int_max_str_digits\<close>); bases that are powers of two have no limit.
\<close>

definition int_max_str_digits :: nat where
  "int_max_str_digits = 4300"

text \<open>\<^verbatim>\<open>int(s)\<close>: \<open>None\<close> stands for the \<^verbatim>\<open>ValueError\<close>.\<close>

definition py_int :: "string \<Rightarrow> int option" where
  "py_int s =
     (let (neg, u) = split_sign (int_strip s) in
      case scan_digits 10 u of
        None \<Rightarrow> None
      | Some ds \<Rightarrow>
          if int_max_str_digits < length ds then None
          else Some (if neg then - int (digits_value 10 ds) else int (digits_value 10 ds)))"

text \<open>
  \<^verbatim>\<open>int(s, 2)\<close>: after the sign an optional prefix \<^verbatim>\<open>0b\<close> or \<^verbatim>\<open>0B\<close>, which one
  underscore may follow.
\<close>

definition strip_0b :: "string \<Rightarrow> string" where
  "strip_0b s =
     (case s of
        c # p # r \<Rightarrow>
          if c = CHR ''0'' \<and> (p = CHR ''b'' \<or> p = CHR ''B'')
          then (case r of [] \<Rightarrow> r | u # r' \<Rightarrow> if u = CHR ''_'' then r' else r)
          else s
      | _ \<Rightarrow> s)"

definition py_int2 :: "string \<Rightarrow> int option" where
  "py_int2 s =
     (let (neg, u) = split_sign (int_strip s) in
      case scan_digits 2 (strip_0b u) of
        None \<Rightarrow> None
      | Some ds \<Rightarrow> Some (if neg then - int (digits_value 2 ds) else int (digits_value 2 ds)))"

text \<open>The digit characters of the formats \<^verbatim>\<open>x\<close> and \<^verbatim>\<open>b\<close>.\<close>

definition digit_char :: "nat \<Rightarrow> char" where
  "digit_char d = (if d < 16 then ''0123456789abcdef'' ! d else CHR ''?'')"

fun hex_digits :: "nat \<Rightarrow> string" where
  "hex_digits n =
     (if n < 16 then [digit_char n] else hex_digits (n div 16) @ [digit_char (n mod 16)])"

fun bin_digits :: "nat \<Rightarrow> string" where
  "bin_digits n =
     (if n < 2 then [digit_char n] else bin_digits (n div 2) @ [digit_char (n mod 2)])"

declare hex_digits.simps [simp del]
declare bin_digits.simps [simp del]

text \<open>\<^verbatim>\<open>format(n, 'x')\<close>: lower-case hexadecimal, no prefix, no padding.\<close>

definition format_x :: "int \<Rightarrow> string" where
  "format_x n = (if n < 0 then CHR ''-'' # hex_digits (nat (- n)) else hex_digits (nat n))"

text \<open>
  \<^verbatim>\<open>'{0:0Wb}'.format(n)\<close> (\<open>zero = True\<close>): binary, the sign first, then zeros up to
  the width \<open>W\<close>. \<^verbatim>\<open>'{0:Wb}'.format(n)\<close> (\<open>zero = False\<close>): binary, right-aligned
  with blanks up to the width.
\<close>

definition format_b :: "bool \<Rightarrow> nat \<Rightarrow> int \<Rightarrow> string" where
  "format_b zero w n =
     (let sign = (if n < 0 then ''-'' else '''');
          ds = bin_digits (nat \<bar>n\<bar>);
          pad = w - (length sign + length ds)
      in if zero then sign @ replicate pad CHR ''0'' @ ds
         else replicate pad CHR '' '' @ sign @ ds)"

type_synonym byte = "8 word"

definition hex_value_of :: "char \<Rightarrow> nat option" where
  "hex_value_of c =
     (let k = (of_char c :: nat) in
      if 48 \<le> k \<and> k \<le> 57 then Some (k - 48)
      else if 97 \<le> k \<and> k \<le> 102 then Some (k - 87)
      else if 65 \<le> k \<and> k \<le> 70 then Some (k - 55)
      else None)"

fun unhex_pairs :: "string \<Rightarrow> byte list option" where
  "unhex_pairs [] = Some []"
| "unhex_pairs [c] = None"
| "unhex_pairs (a # b # r) =
     (case (hex_value_of a, hex_value_of b) of
        (Some h, Some l) \<Rightarrow> map_option ((#) (of_nat (16 * h + l))) (unhex_pairs r)
      | _ \<Rightarrow> None)"

text \<open>
  \<^verbatim>\<open>binascii.unhexlify(s)\<close> on a \<^verbatim>\<open>str\<close>: a \<^verbatim>\<open>ValueError\<close> for a non-ASCII
  character, \<^verbatim>\<open>binascii.Error\<close> for an odd length or for a character that is no
  hexadecimal digit.
\<close>

definition unhexlify :: "string \<Rightarrow> error + byte list" where
  "unhexlify s =
     (if \<exists>c \<in> set s. 128 \<le> (of_char c :: nat) then Inl ValueError
      else if odd (length s) then Inl BinasciiError
      else (case unhex_pairs s of None \<Rightarrow> Inl BinasciiError | Some bs \<Rightarrow> Inr bs))"

text \<open>\<^verbatim>\<open>bytes.hex()\<close>.\<close>

definition bytes_hex :: "byte list \<Rightarrow> string" where
  "bytes_hex bs = concat (map (\<lambda>b. [digit_char (unat b div 16), digit_char (unat b mod 16)]) bs)"

subsection \<open>The frame classes\<close>

text \<open>The module-level tables \<^verbatim>\<open>aos_defaults\<close> and \<^verbatim>\<open>tm_defaults\<close>, in source order.\<close>

definition aos_defaults :: "(string \<times> string) list" where
  "aos_defaults =
     [(''version'', ''00''),
      (''sc_id'', ''00101100''),
      (''vc_id'', ''000000''),
      (''vcfc'', ''000000000000000000000000''),
      (''replay_flag'', ''0''),
      (''vcfc_flag'', ''1''),
      (''reserved_spare'', ''00''),
      (''vcfc_cycle'', ''0000'')]"

definition tm_defaults :: "(string \<times> string) list" where
  "tm_defaults =
     [(''version'', ''00''),
      (''sc_id'', ''0000101100''),
      (''vc_id'', ''000''),
      (''ocf_flag'', ''0''),
      (''mcfc'', ''00000000''),
      (''vcfc'', ''00000000''),
      (''shf'', ''0''),
      (''synch'', ''0''),
      (''pof'', ''0''),
      (''sl_id'', ''00''),
      (''fhp'', ''00000000000'')]"

datatype frame_class = TC | TM | AOS

text \<open>
  An instance of \<^verbatim>\<open>Frame\<close>. The attributes that every \<^verbatim>\<open>__init__\<close> assigns are
  plain strings; \<^verbatim>\<open>hex_value\<close> stays \<^verbatim>\<open>None\<close> until \<^verbatim>\<open>override_hex\<close> is called.
\<close>

record Frame =
  cls :: frame_class
  sc_id :: string
  vc_id :: string
  hex_value :: "string option"
  override :: bool
  frame_header_hex :: string
  frame_body_hex :: string
  default_frame_hex :: string

definition override_scid :: "Frame \<Rightarrow> string \<Rightarrow> Frame" where
  "override_scid self scid = self\<lparr>override := True, sc_id := scid\<rparr>"

definition override_vcid :: "Frame \<Rightarrow> string \<Rightarrow> Frame" where
  "override_vcid self vcid = self\<lparr>override := True, vc_id := vcid\<rparr>"

definition override_hex :: "Frame \<Rightarrow> string \<Rightarrow> Frame" where
  "override_hex self hex = self\<lparr>override := True, hex_value := Some hex\<rparr>"

definition set_body :: "Frame \<Rightarrow> string \<Rightarrow> Frame" where
  "set_body self hex = self\<lparr>frame_body_hex := hex\<rparr>"

text \<open>The class attributes of \<^verbatim>\<open>TC\<close>.\<close>

definition TC_version :: string where "TC_version = ''00''"
definition TC_bypass_flag :: string where "TC_bypass_flag = ''1''"
definition TC_ctrl_cmd_flag :: string where "TC_ctrl_cmd_flag = ''0''"
definition TC_spare :: string where "TC_spare = ''00''"
definition TC_frame_length :: string where "TC_frame_length = ''0000001000''"
definition TC_frame_sequence_number :: string where "TC_frame_sequence_number = ''00000000''"

text \<open>The class attributes of \<^verbatim>\<open>AOS\<close>; no method reads them.\<close>

definition AOS_version :: string where "AOS_version = ''01''"
definition AOS_vcfc :: string where "AOS_vcfc = ''000000''"
definition AOS_replay_flag :: string where "AOS_replay_flag = ''0''"
definition AOS_vcfc_flag :: string where "AOS_vcfc_flag = ''0''"
definition AOS_spare :: string where "AOS_spare = ''00''"
definition AOS_vcc_cycle :: string where "AOS_vcc_cycle = ''0000''"

definition TC_init :: Frame where
  "TC_init =
     \<lparr>cls = TC,
      sc_id = ''0000101100'',
      vc_id = ''000001'',
      hex_value = None,
      override = False,
      frame_header_hex = ''202c040800'',
      frame_body_hex = ''0001bd37'',
      default_frame_hex = ''202c040800'' @ ''0001bd37''\<rparr>"

definition TM_init :: Frame where
  "TM_init =
     \<lparr>cls = TM,
      sc_id = ''0011111111'',
      vc_id = ''000'',
      hex_value = None,
      override = False,
      frame_header_hex = ''4ff000000000'',
      frame_body_hex = ''00000000000000000000000000001111111111111111111111111111111111111111111111111111111111111111111111111111111111111111111111111111111111111111111111111111111100000000000000000000000000000000'',
      default_frame_hex = ''4ff000000000'' @ ''00000000000000000000000000001111111111111111111111111111111111111111111111111111111111111111111111111111111111111111111111111111111111111111111111111111111100000000000000000000000000000000''\<rparr>"

definition AOS_init :: Frame where
  "AOS_init =
     \<lparr>cls = AOS,
      sc_id = ''111111111'',
      vc_id = ''000000'',
      hex_value = None,
      override = False,
      frame_header_hex = ''7fc000000000'',
      frame_body_hex = ''00000000000000000000000000001111111111111111111111111111111111111111111111111111111111111111111111111111111111111111111111111111111111111111111111111111111100000000000000000000000000000000'',
      default_frame_hex = ''7fc000000000'' @ ''00000000000000000000000000001111111111111111111111111111111111111111111111111111111111111111111111111111111111111111111111111111111111111111111111111111111100000000000000000000000000000000''\<rparr>"

text \<open>
  The last branch of each \<^verbatim>\<open>to_hex\<close>: the header bits \<^verbatim>\<open>frame_header_bin\<close> are read
  as a binary number, printed in hexadecimal and followed by the body. \<^verbatim>\<open>TC\<close> joins
  its eight fields to get the header bits; \<^verbatim>\<open>TM\<close> and \<^verbatim>\<open>AOS\<close> take the empty string.
\<close>

definition reassemble :: "string \<Rightarrow> Frame \<Rightarrow> error + string" where
  "reassemble frame_header_bin self =
     (case py_int2 frame_header_bin of
        None \<Rightarrow> Inl ValueError
      | Some n \<Rightarrow> Inr (format_x n @ frame_body_hex self))"

definition TC_header_bin :: "Frame \<Rightarrow> string" where
  "TC_header_bin self =
     TC_version @ TC_bypass_flag @ TC_ctrl_cmd_flag @ TC_spare @ sc_id self @ vc_id self
       @ TC_frame_length @ TC_frame_sequence_number"

definition TC_to_hex :: "Frame \<Rightarrow> error + string" where
  "TC_to_hex self =
     (case hex_value self of
        Some h \<Rightarrow> Inr h
      | None \<Rightarrow>
          if \<not> override self then Inr (default_frame_hex self)
          else reassemble (TC_header_bin self) self)"

definition TM_to_hex :: "Frame \<Rightarrow> error + string" where
  "TM_to_hex self =
     (case hex_value self of
        Some h \<Rightarrow> Inr h
      | None \<Rightarrow>
          if \<not> override self then Inr (default_frame_hex self)
          else reassemble '''' self)"

definition AOS_to_hex :: "Frame \<Rightarrow> error + string" where
  "AOS_to_hex self =
     (case hex_value self of
        Some h \<Rightarrow> Inr h
      | None \<Rightarrow>
          if \<not> override self then Inr (default_frame_hex self)
          else reassemble '''' self)"

text \<open>\<^verbatim>\<open>frame.to_hex()\<close>: the method of the object's class.\<close>

definition to_hex :: "Frame \<Rightarrow> error + string" where
  "to_hex self =
     (case cls self of
        TC \<Rightarrow> TC_to_hex self
      | TM \<Rightarrow> TM_to_hex self
      | AOS \<Rightarrow> AOS_to_hex self)"

subsection \<open>The argument checks of the option parser\<close>

text \<open>
  \<^verbatim>\<open>scid_type\<close> and \<^verbatim>\<open>vcid_type\<close> evaluate the range comparison inside
  \<^verbatim>\<open>try\<close> and drop its value; only an exception of \<^verbatim>\<open>int\<close> leads to the
  \<^verbatim>\<open>ArgumentTypeError\<close>. Both return the argument string itself.
\<close>

definition scid_type :: "string \<Rightarrow> error + string" where
  "scid_type scid =
     (case py_int scid of
        None \<Rightarrow> Inl (ArgumentTypeError ''SC ID must be a number between 0 and 1023 inclusive'')
      | Some n \<Rightarrow> (let _ = (n \<ge> 0 \<and> n \<le> 1023) in Inr scid))"

definition vcid_type :: "string \<Rightarrow> error + string" where
  "vcid_type vcid =
     (case py_int vcid of
        None \<Rightarrow> Inl (ArgumentTypeError ''VC ID must be a number between 0 and 63 inclusive'')
      | Some n \<Rightarrow> (let _ = (n \<ge> 0 \<and> n \<le> 63) in Inr vcid))"

definition frame_type :: "string \<Rightarrow> error + string" where
  "frame_type type =
     (if upper type \<notin> set [''TC'', ''TM'', ''AOS'']
      then Inl (ArgumentTypeError (''Frame type must be either 'TC', 'TM', or 'AOS'' @ [CHR 0x27]))
      else Inr type)"

text \<open>
  The namespace that \<^verbatim>\<open>parse_args\<close> returns. \<^verbatim>\<open>properties\<close> is the opened file,
  given by the lines that iterating over it yields; the file is taken to exist and to be
  readable.
\<close>

record cli_args =
  frame :: "string option"
  properties :: "string list"
  process_only :: bool
  apply_only :: bool
  scid :: "string option"
  vcid :: "string option"
  type :: "string option"

definition convert :: "(string \<Rightarrow> error + string) \<Rightarrow> string option \<Rightarrow> error + string option" where
  "convert type_func arg =
     (case arg of
        None \<Rightarrow> Inr None
      | Some s \<Rightarrow> (case type_func s of Inl e \<Rightarrow> Inl e | Inr v \<Rightarrow> Inr (Some v)))"

text \<open>
  \<^verbatim>\<open>parse_args\<close>, from the option strings of the command line: each option given
  with a \<^verbatim>\<open>type=\<close> function is passed through it. (argparse converts in command-line
  order; the order below is that of the declarations. It decides only which message is
  reported when several options are ill-formed.)
\<close>

definition parse_args :: "cli_args \<Rightarrow> error + cli_args" where
  "parse_args argv =
     (case convert scid_type (scid argv) of
        Inl e \<Rightarrow> Inl e
      | Inr s \<Rightarrow>
          (case convert vcid_type (vcid argv) of
             Inl e \<Rightarrow> Inl e
           | Inr v \<Rightarrow>
               (case convert frame_type (type argv) of
                  Inl e \<Rightarrow> Inl e
                | Inr t \<Rightarrow> Inr (argv\<lparr>scid := s, vcid := v, type := t\<rparr>))))"

subsection \<open>The external client and the effects of a run\<close>

type_synonym bytes = "byte list"

text \<open>
  \<^verbatim>\<open>KmcSdlsClient\<close> is imported, not part of the script: its six operations are
  parameters. \<open>'r\<close> is the type of the frame object that processing returns.
\<close>

record 'r KmcSdlsClient =
  apply_security_tc :: "bytes \<Rightarrow> error + bytes"
  apply_security_tm :: "bytes \<Rightarrow> error + bytes"
  apply_security_aos :: "bytes \<Rightarrow> error + bytes"
  process_security_tc :: "bytes \<Rightarrow> error + 'r"
  process_security_tm :: "bytes \<Rightarrow> error + 'r"
  process_security_aos :: "bytes \<Rightarrow> error + 'r"

text \<open>
  What a run does to the frame object and to the outside, in order. The three report
  functions \<^verbatim>\<open>print_tc\<close>, \<^verbatim>\<open>print_aos\<close> and \<^verbatim>\<open>print_tm\<close> only print fields of
  the object returned by the client; each is recorded as one event.
\<close>

datatype 'r event =
    Override_scid string
  | Override_vcid string
  | Override_hex string
  | New_client "string list"
  | Print string
  | Apply_security_tc bytes
  | Apply_security_tm bytes
  | Apply_security_aos bytes
  | Process_security_tc bytes
  | Process_security_tm bytes
  | Process_security_aos bytes
  | Print_tc 'r
  | Print_aos 'r
  | Print_tm 'r

text \<open>
  A computation gives the events so far and either the exception that ended it or its
  value.
\<close>

type_synonym ('r, 'a) io = "'r event list \<times> (error + 'a)"

definition ret :: "'a \<Rightarrow> ('r, 'a) io" where
  "ret x = ([], Inr x)"

definition throw :: "error \<Rightarrow> ('r, 'a) io" where
  "throw e = ([], Inl e)"

definition emit :: "'r event \<Rightarrow> ('r, unit) io" where
  "emit ev = ([ev], Inr ())"

definition lift :: "error + 'a \<Rightarrow> ('r, 'a) io" where
  "lift r = ([], r)"

definition bind_io :: "('r, 'a) io \<Rightarrow> ('a \<Rightarrow> ('r, 'b) io) \<Rightarrow> ('r, 'b) io" where
  "bind_io m f =
     (case m of
        (evs, Inl e) \<Rightarrow> (evs, Inl e)
      | (evs, Inr x) \<Rightarrow> (case f x of (evs', r) \<Rightarrow> (evs @ evs', r)))"

subsection \<open>main\<close>

text \<open>Truth value of an optional string: \<^verbatim>\<open>None\<close> and the empty string are false.\<close>

definition truthy :: "string option \<Rightarrow> bool" where
  "truthy arg = (case arg of None \<Rightarrow> False | Some s \<Rightarrow> s \<noteq> [])"

text \<open>The choice of the frame class: \<open>(f_type, frame)\<close>.\<close>

definition select_frame :: "string option \<Rightarrow> error + string \<times> Frame" where
  "select_frame t =
     (case t of
        Some ty \<Rightarrow>
          (let f_type = upper ty in
           if f_type = ''TC'' then Inr (f_type, TC_init)
           else if f_type = ''TM'' then Inr (f_type, TM_init)
           else if f_type = ''AOS'' then Inr (f_type, AOS_init)
           else Inl (ArgumentException ''Frame type must be TC, TM, or AOS''))
      | None \<Rightarrow> Inr (''TC'', TC_init))"

definition check_exclusive :: "cli_args \<Rightarrow> ('r, unit) io" where
  "check_exclusive a =
     (if truthy (frame a) \<and> (truthy (scid a) \<or> truthy (vcid a))
      then throw (ArgumentException
        ''Can't have both Custom Frame override and (SC_ID or VC_ID) overrides specified at the same time.'')
      else ret ())"

definition scid_fmt :: "string \<Rightarrow> int \<Rightarrow> string" where
  "scid_fmt f_type =
     (if f_type = ''TM'' then format_b False 10
      else if f_type = ''AOS'' then format_b True 8
      else format_b True 10)"

definition vcid_fmt :: "string \<Rightarrow> int \<Rightarrow> string" where
  "vcid_fmt f_type =
     (if f_type = ''TM'' then format_b True 3
      else if f_type = ''AOS'' then format_b True 6
      else format_b True 6)"

definition apply_scid :: "string \<Rightarrow> cli_args \<Rightarrow> Frame \<Rightarrow> ('r, Frame) io" where
  "apply_scid f_type a fr =
     (case scid a of
        None \<Rightarrow> ret fr
      | Some s \<Rightarrow>
          if s = [] then ret fr
          else (case py_int s of
                  None \<Rightarrow> throw ValueError
                | Some n \<Rightarrow>
                    (let sc_id = scid_fmt f_type n in
                     bind_io (emit (Override_scid sc_id)) (\<lambda>_. ret (override_scid fr sc_id)))))"

definition apply_vcid :: "string \<Rightarrow> cli_args \<Rightarrow> Frame \<Rightarrow> ('r, Frame) io" where
  "apply_vcid f_type a fr =
     (case vcid a of
        None \<Rightarrow> ret fr
      | Some s \<Rightarrow>
          if s = [] then ret fr
          else (case py_int s of
                  None \<Rightarrow> throw ValueError
                | Some n \<Rightarrow>
                    (let vc_id = vcid_fmt f_type n in
                     bind_io (emit (Override_vcid vc_id)) (\<lambda>_. ret (override_vcid fr vc_id)))))"

definition apply_frame :: "cli_args \<Rightarrow> Frame \<Rightarrow> ('r, Frame) io" where
  "apply_frame a fr =
     (case frame a of
        None \<Rightarrow> ret fr
      | Some frame_hex \<Rightarrow>
          if frame_hex = [] then ret fr
          else bind_io (emit (Override_hex frame_hex)) (\<lambda>_. ret (override_hex fr frame_hex)))"

text \<open>The loop over the lines of the properties file, with the list built so far.\<close>

fun read_props :: "string list \<Rightarrow> string list \<Rightarrow> string list" where
  "read_props kmc_sdls_props [] = kmc_sdls_props"
| "read_props kmc_sdls_props (line # rest) =
     (if \<not> startswith_hash line \<and> rstrip line \<noteq> ''''
      then read_props (kmc_sdls_props @ [rstrip line]) rest
      else read_props kmc_sdls_props rest)"

text \<open>
  The first part of \<^verbatim>\<open>main\<close>, up to the exclusion check and the three overrides:
  \<open>(f_type, frame)\<close>.
\<close>

definition build_frame :: "cli_args \<Rightarrow> ('r, string \<times> Frame) io" where
  "build_frame a =
     bind_io (lift (select_frame (type a))) (\<lambda>(f_type, fr0).
     bind_io (check_exclusive a) (\<lambda>_.
     bind_io (apply_scid f_type a fr0) (\<lambda>fr1.
     bind_io (apply_vcid f_type a fr1) (\<lambda>fr2.
     bind_io (apply_frame a fr2) (\<lambda>fr3.
     ret (f_type, fr3))))))"

text \<open>A call of one operation of the client is an event, then its result.\<close>

definition call_apply :: "'r KmcSdlsClient \<Rightarrow> string \<Rightarrow> bytes \<Rightarrow> ('r, bytes) io" where
  "call_apply k f_type tc =
     (if f_type = ''TM'' then bind_io (emit (Apply_security_tm tc)) (\<lambda>_. lift (apply_security_tm k tc))
      else if f_type = ''AOS'' then bind_io (emit (Apply_security_aos tc)) (\<lambda>_. lift (apply_security_aos k tc))
      else bind_io (emit (Apply_security_tc tc)) (\<lambda>_. lift (apply_security_tc k tc)))"

definition call_process :: "'r KmcSdlsClient \<Rightarrow> string \<Rightarrow> bytes \<Rightarrow> ('r, 'r) io" where
  "call_process k f_type result =
     (if f_type = ''TM'' then bind_io (emit (Process_security_tm result)) (\<lambda>_. lift (process_security_tm k result))
      else if f_type = ''AOS'' then bind_io (emit (Process_security_aos result)) (\<lambda>_. lift (process_security_aos k result))
      else bind_io (emit (Process_security_tc result)) (\<lambda>_. lift (process_security_tc k result)))"

definition report :: "string \<Rightarrow> 'r \<Rightarrow> ('r, unit) io" where
  "report f_type reversed_frame =
     (if f_type = ''TC'' then emit (Print_tc reversed_frame)
      else if f_type = ''AOS'' then emit (Print_aos reversed_frame)
      else if f_type = ''TM'' then emit (Print_tm reversed_frame)
      else ret ())"

text \<open>The two conditional steps at the end of \<^verbatim>\<open>main\<close>.\<close>

definition apply_step :: "'r KmcSdlsClient \<Rightarrow> string \<Rightarrow> cli_args \<Rightarrow> bytes \<Rightarrow> ('r, bytes) io" where
  "apply_step k f_type a tc =
     (if \<not> process_only a \<or> (process_only a \<and> apply_only a)
      then bind_io (call_apply k f_type tc) (\<lambda>result.
           bind_io (emit (Print (''SDLS TC Apply Security Result:\<newline>'' @ bytes_hex result @ ''\<newline>''))) (\<lambda>_.
           ret result))
      else ret tc)"

definition process_step :: "'r KmcSdlsClient \<Rightarrow> string \<Rightarrow> cli_args \<Rightarrow> bytes \<Rightarrow> ('r, unit) io" where
  "process_step k f_type a result =
     (if \<not> apply_only a \<or> (process_only a \<and> apply_only a)
      then bind_io (call_process k f_type result) (\<lambda>reversed_frame.
           bind_io (emit (Print (''SDLS '' @ f_type @ '' Process Security Result:''))) (\<lambda>_.
           report f_type reversed_frame))
      else ret ())"

definition orchestrate :: "'r KmcSdlsClient \<Rightarrow> string \<Rightarrow> cli_args \<Rightarrow> bytes \<Rightarrow> ('r, unit) io" where
  "orchestrate k f_type a tc =
     bind_io (apply_step k f_type a tc) (\<lambda>result. process_step k f_type a result)"

text \<open>
  \<^verbatim>\<open>main\<close> after \<^verbatim>\<open>parse_args\<close>. The first argument stands for the constructor
  \<^verbatim>\<open>KmcSdlsClient.KmcSdlsClient\<close>. \<^verbatim>\<open>to_hex\<close> is called twice, for the message and
  for the bytes.
\<close>

definition main :: "(string list \<Rightarrow> error + 'r KmcSdlsClient) \<Rightarrow> cli_args \<Rightarrow> ('r, unit) io" where
  "main new_client a =
     bind_io (build_frame a) (\<lambda>(f_type, fr).
     let kmc_sdls_props = read_props [] (properties a) in
     bind_io (emit (New_client kmc_sdls_props)) (\<lambda>_.
     bind_io (lift (new_client kmc_sdls_props)) (\<lambda>k.
     bind_io (lift (to_hex fr)) (\<lambda>h.
     bind_io (emit (Print (''Using telecommand transfer frame: \<newline>'' @ h @ ''\<newline>''))) (\<lambda>_.
     bind_io (lift (to_hex fr)) (\<lambda>h'.
     bind_io (lift (unhexlify h')) (\<lambda>tc.
     orchestrate k f_type a tc)))))))"

text \<open>The script from the option strings: the parser, then \<^verbatim>\<open>main\<close>.\<close>

definition run :: "(string list \<Rightarrow> error + 'r KmcSdlsClient) \<Rightarrow> cli_args \<Rightarrow> ('r, unit) io" where
  "run new_client argv =
     (case parse_args argv of Inl e \<Rightarrow> throw e | Inr a \<Rightarrow> main new_client a)"

subsection \<open>Notions used to state the properties\<close>

text \<open>The calls of the client among the events of a run.\<close>

definition is_apply :: "'r event \<Rightarrow> bool" where
  "is_apply ev =
     (case ev of
        Apply_security_tc _ \<Rightarrow> True
      | Apply_security_tm _ \<Rightarrow> True
      | Apply_security_aos _ \<Rightarrow> True
      | _ \<Rightarrow> False)"

definition is_process :: "'r event \<Rightarrow> bool" where
  "is_process ev =
     (case ev of
        Process_security_tc _ \<Rightarrow> True
      | Process_security_tm _ \<Rightarrow> True
      | Process_security_aos _ \<Rightarrow> True
      | _ \<Rightarrow> False)"

definition is_new_client :: "'r event \<Rightarrow> bool" where
  "is_new_client ev = (case ev of New_client _ \<Rightarrow> True | _ \<Rightarrow> False)"

definition apply_calls :: "'r event list \<Rightarrow> 'r event list" where
  "apply_calls evs = filter is_apply evs"

definition process_calls :: "'r event list \<Rightarrow> 'r event list" where
  "process_calls evs = filter is_process evs"

definition service_calls :: "'r event list \<Rightarrow> 'r event list" where
  "service_calls evs = filter (\<lambda>ev. is_apply ev \<or> is_process ev) evs"

text \<open>The operation pair that belongs to a frame class.\<close>

definition type_name :: "frame_class \<Rightarrow> string" where
  "type_name c = (case c of TC \<Rightarrow> ''TC'' | TM \<Rightarrow> ''TM'' | AOS \<Rightarrow> ''AOS'')"

definition matching_apply :: "frame_class \<Rightarrow> bytes \<Rightarrow> 'r event" where
  "matching_apply c b =
     (case c of TC \<Rightarrow> Apply_security_tc b | TM \<Rightarrow> Apply_security_tm b | AOS \<Rightarrow> Apply_security_aos b)"

definition matching_process :: "frame_class \<Rightarrow> bytes \<Rightarrow> 'r event" where
  "matching_process c b =
     (case c of TC \<Rightarrow> Process_security_tc b | TM \<Rightarrow> Process_security_tm b | AOS \<Rightarrow> Process_security_aos b)"

definition apply_op :: "'r KmcSdlsClient \<Rightarrow> frame_class \<Rightarrow> bytes \<Rightarrow> error + bytes" where
  "apply_op k c =
     (case c of TC \<Rightarrow> apply_security_tc k | TM \<Rightarrow> apply_security_tm k | AOS \<Rightarrow> apply_security_aos k)"

definition process_op :: "'r KmcSdlsClient \<Rightarrow> frame_class \<Rightarrow> bytes \<Rightarrow> error + 'r" where
  "process_op k c =
     (case c of TC \<Rightarrow> process_security_tc k | TM \<Rightarrow> process_security_tm k | AOS \<Rightarrow> process_security_aos k)"

text \<open>The frame type a configuration asks for: TC when none is given, upper case otherwise.\<close>

definition configured_type :: "cli_args \<Rightarrow> string" where
  "configured_type a = (case type a of None \<Rightarrow> ''TC'' | Some t \<Rightarrow> upper t)"

text \<open>The two exceptions that report a bad command line.\<close>

definition is_argument_error :: "error \<Rightarrow> bool" where
  "is_argument_error e =
     (case e of ArgumentTypeError _ \<Rightarrow> True | ArgumentException _ \<Rightarrow> True | _ \<Rightarrow> False)"

text \<open>
  Reading a header back: every hexadecimal digit as four bits, and a bit string cut into
  consecutive fields of given widths.
\<close>

definition nibble_bits :: "char \<Rightarrow> string" where
  "nibble_bits c = (case hex_value_of c of None \<Rightarrow> [] | Some v \<Rightarrow> format_b True 4 (int v))"

definition hex_bits :: "string \<Rightarrow> string" where
  "hex_bits h = concat (map nibble_bits h)"

fun split_fields :: "nat list \<Rightarrow> string \<Rightarrow> string list" where
  "split_fields [] bits = []"
| "split_fields (w # ws) bits = take w bits # split_fields ws (drop w bits)"

text \<open>Strings of the characters 0 and 1, and the number they denote in binary.\<close>

definition bit_string :: "string \<Rightarrow> bool" where
  "bit_string s = list_all (\<lambda>c. c = CHR ''0'' \<or> c = CHR ''1'') s"

definition bit_val :: "char \<Rightarrow> nat" where
  "bit_val c = (if c = CHR ''1'' then 1 else 0)"

definition bits_value :: "string \<Rightarrow> nat" where
  "bits_value s = digits_value 2 (map bit_val s)"

text \<open>
  The properties lines as the specification words them: the lines that are not empty and
  do not start with \<^verbatim>\<open>#\<close>, unchanged.
\<close>

definition verbatim_props :: "string list \<Rightarrow> string list" where
  "verbatim_props lines = filter (\<lambda>l. l \<noteq> [] \<and> \<not> startswith_hash l) lines"

text \<open>
  A client to run examples with: applying security puts the byte \<open>0xFF\<close> in front,
  processing returns its argument.
\<close>

definition loopback_client :: "bytes KmcSdlsClient" where
  "loopback_client =
     \<lparr>apply_security_tc = (\<lambda>b. Inr (0xFF # b)),
      apply_security_tm = (\<lambda>b. Inr (0xFF # b)),
      apply_security_aos = (\<lambda>b. Inr (0xFF # b)),
      process_security_tc = (\<lambda>b. Inr b),
      process_security_tm = (\<lambda>b. Inr b),
      process_security_aos = (\<lambda>b. Inr b)\<rparr>"

section \<open>Properties\<close>

subsection \<open>Evaluation\<close>

lemma replicate_numeral_Cons: "replicate (numeral k) x = x # replicate (pred_numeral k) x"
  by (simp add: numeral_eq_Suc)

lemmas builtin_defs =
  isspace_def rstrip_def startswith_hash_def upper_def upper_char_def
  int_space_def int_strip_def digit_of_def digits_value_def split_sign_def
  int_max_str_digits_def py_int_def strip_0b_def py_int2_def digit_char_def
  hex_digits.simps bin_digits.simps format_x_def format_b_def hex_value_of_def
  unhexlify_def bytes_hex_def replicate_numeral_Cons Let_def

lemmas frame_defs =
  override_scid_def override_vcid_def override_hex_def
  TC_version_def TC_bypass_flag_def TC_ctrl_cmd_flag_def TC_spare_def TC_frame_length_def
  TC_frame_sequence_number_def TC_init_def TM_init_def AOS_init_def reassemble_def
  TC_header_bin_def TC_to_hex_def TM_to_hex_def AOS_to_hex_def to_hex_def

lemmas io_defs = ret_def throw_def emit_def lift_def bind_io_def

lemmas main_defs =
  scid_type_def vcid_type_def frame_type_def convert_def parse_args_def truthy_def
  select_frame_def check_exclusive_def scid_fmt_def vcid_fmt_def apply_scid_def
  apply_vcid_def apply_frame_def build_frame_def call_apply_def call_process_def report_def
  apply_step_def process_step_def orchestrate_def main_def run_def

lemmas notion_defs =
  is_apply_def is_process_def is_new_client_def apply_calls_def process_calls_def
  service_calls_def type_name_def matching_apply_def matching_process_def apply_op_def
  process_op_def
  configured_type_def is_argument_error_def nibble_bits_def hex_bits_def verbatim_props_def
  loopback_client_def

subsection \<open>The event monad\<close>

lemma bind_io_Inr:
  "bind_io m f = (evs, Inr y) \<Longrightarrow> \<exists>e1 x e2. m = (e1, Inr x) \<and> f x = (e2, Inr y) \<and> evs = e1 @ e2"
  by (auto simp: bind_io_def split: prod.splits sum.splits)

lemma bind_io_step: "m = (e1, Inr x) \<Longrightarrow> bind_io m f = (e1 @ fst (f x), snd (f x))"
  by (simp add: bind_io_def split: prod.splits)

lemma bind_io_emit: "bind_io (emit ev) f = (ev # fst (f ()), snd (f ()))"
  by (simp add: bind_io_def emit_def split: prod.splits)

lemma bind_io_lift_Inr: "bind_io (lift (Inr x)) f = f x"
  by (simp add: bind_io_def lift_def split: prod.splits)

subsection \<open>The frame after the overrides\<close>

lemma select_frame_ok:
  "select_frame (type a) = Inr (f_type, fr) \<Longrightarrow>
     f_type = configured_type a \<and> f_type = type_name (cls fr)"
  by (auto simp: select_frame_def configured_type_def type_name_def Let_def
        TC_init_def TM_init_def AOS_init_def split: option.splits if_splits)

lemma apply_scid_ok:
  "apply_scid t a fr = (evs, Inr fr') \<Longrightarrow>
     cls fr' = cls fr \<and> service_calls evs = [] \<and> filter is_new_client evs = []"
  by (auto simp: apply_scid_def io_defs override_scid_def Let_def service_calls_def
        is_apply_def is_process_def is_new_client_def split: option.splits if_splits)

lemma apply_vcid_ok:
  "apply_vcid t a fr = (evs, Inr fr') \<Longrightarrow>
     cls fr' = cls fr \<and> service_calls evs = [] \<and> filter is_new_client evs = []"
  by (auto simp: apply_vcid_def io_defs override_vcid_def Let_def service_calls_def
        is_apply_def is_process_def is_new_client_def split: option.splits if_splits)

lemma apply_frame_ok:
  "apply_frame a fr = (evs, Inr fr') \<Longrightarrow>
     cls fr' = cls fr \<and> service_calls evs = [] \<and> filter is_new_client evs = []"
  by (auto simp: apply_frame_def io_defs override_hex_def service_calls_def
        is_apply_def is_process_def is_new_client_def split: option.splits if_splits)

lemma check_exclusive_ok: "check_exclusive a = (evs, Inr u) \<Longrightarrow> evs = []"
  by (auto simp: check_exclusive_def io_defs split: if_splits)

lemma build_frame_ok:
  assumes "build_frame a = (evs, Inr (f_type, fr))"
  shows "f_type = configured_type a" and "f_type = type_name (cls fr)"
    and "service_calls evs = []" and "filter is_new_client evs = []"
proof -
  from assms obtain e1 x e2 where
    s: "lift (select_frame (type a)) = (e1, Inr x)" and
    r: "(case x of (f_type, fr0) \<Rightarrow>
           bind_io (check_exclusive a) (\<lambda>_.
           bind_io (apply_scid f_type a fr0) (\<lambda>fr1.
           bind_io (apply_vcid f_type a fr1) (\<lambda>fr2.
           bind_io (apply_frame a fr2) (\<lambda>fr3. ret (f_type, fr3)))))) = (e2, Inr (f_type, fr))" and
    e: "evs = e1 @ e2"
    unfolding build_frame_def by (blast dest: bind_io_Inr)
  obtain t0 fr0 where x: "x = (t0, fr0)" by (cases x)
  from s x have sel: "select_frame (type a) = Inr (t0, fr0)" and e1: "e1 = []"
    by (simp_all add: lift_def)
  from r x obtain ea u eb where
    c: "check_exclusive a = (ea, Inr u)" and
    r1: "bind_io (apply_scid t0 a fr0) (\<lambda>fr1.
           bind_io (apply_vcid t0 a fr1) (\<lambda>fr2.
           bind_io (apply_frame a fr2) (\<lambda>fr3. ret (t0, fr3)))) = (eb, Inr (f_type, fr))" and
    e2: "e2 = ea @ eb"
    by (auto dest: bind_io_Inr)
  from r1 obtain es fr1 ec where
    a1: "apply_scid t0 a fr0 = (es, Inr fr1)" and
    r2: "bind_io (apply_vcid t0 a fr1) (\<lambda>fr2.
           bind_io (apply_frame a fr2) (\<lambda>fr3. ret (t0, fr3))) = (ec, Inr (f_type, fr))" and
    eb: "eb = es @ ec"
    by (auto dest: bind_io_Inr)
  from r2 obtain ev fr2 ed where
    a2: "apply_vcid t0 a fr1 = (ev, Inr fr2)" and
    r3: "bind_io (apply_frame a fr2) (\<lambda>fr3. ret (t0, fr3)) = (ed, Inr (f_type, fr))" and
    ec: "ec = ev @ ed"
    by (auto dest: bind_io_Inr)
  from r3 obtain ef fr3 eg where
    a3: "apply_frame a fr2 = (ef, Inr fr3)" and
    r4: "ret (t0, fr3) = (eg, Inr (f_type, fr))" and
    ed: "ed = ef @ eg"
    by (auto dest: bind_io_Inr)
  from r4 have eq: "t0 = f_type" "fr3 = fr" "eg = []" by (simp_all add: ret_def)
  have cl: "cls fr = cls fr0"
    using apply_scid_ok[OF a1] apply_vcid_ok[OF a2] apply_frame_ok[OF a3] eq by simp
  have ev: "evs = es @ ev @ ef"
    using e e1 e2 eb ec ed eq check_exclusive_ok[OF c] by simp
  show "f_type = configured_type a" and "f_type = type_name (cls fr)"
    and "service_calls evs = []" and "filter is_new_client evs = []"
    using select_frame_ok[OF sel] cl eq ev
      apply_scid_ok[OF a1] apply_vcid_ok[OF a2] apply_frame_ok[OF a3]
    by (auto simp: service_calls_def)
qed

subsection \<open>The calls made by the two last steps\<close>

lemma call_apply_eq:
  "call_apply k (type_name c) tc = ([matching_apply c tc], apply_op k c tc)"
  by (cases c) (simp_all add: call_apply_def type_name_def matching_apply_def apply_op_def
        bind_io_emit lift_def)

lemma call_process_eq:
  "call_process k (type_name c) r = ([matching_process c r], process_op k c r)"
  by (cases c) (simp_all add: call_process_def type_name_def matching_process_def process_op_def
        bind_io_emit lift_def)

lemma report_events:
  "filter is_apply (fst (report t r)) = []"
  "filter is_process (fst (report t r)) = []"
  "filter (\<lambda>ev. is_apply ev \<or> is_process ev) (fst (report t r)) = []"
  "filter is_new_client (fst (report t r)) = []"
  by (simp_all add: report_def emit_def ret_def is_apply_def is_process_def is_new_client_def)

lemma matching_kinds:
  "is_apply (matching_apply c b)" "\<not> is_process (matching_apply c b)"
  "is_process (matching_process c b)" "\<not> is_apply (matching_process c b)"
  "\<not> is_new_client (matching_apply c b)" "\<not> is_new_client (matching_process c b)"
  by (cases c; simp add: matching_apply_def matching_process_def is_apply_def is_process_def
        is_new_client_def)+

lemma print_kinds:
  "\<not> is_apply (Print s)" "\<not> is_process (Print s)" "\<not> is_new_client (Print s)"
  "\<not> is_apply (New_client p)" "\<not> is_process (New_client p)" "is_new_client (New_client p)"
  by (simp_all add: is_apply_def is_process_def is_new_client_def)

lemma apply_step_eq:
  "apply_step k (type_name c) a tc =
     (if \<not> process_only a \<or> apply_only a
      then (case apply_op k c tc of
              Inl e \<Rightarrow> ([matching_apply c tc], Inl e)
            | Inr r \<Rightarrow>
                ([matching_apply c tc,
                  Print (''SDLS TC Apply Security Result:\<newline>'' @ bytes_hex r @ ''\<newline>'')],
                 Inr r))
      else ([], Inr tc))"
  by (auto simp: apply_step_def call_apply_eq bind_io_def emit_def ret_def split: sum.splits)

lemma process_step_eq:
  "process_step k (type_name c) a r =
     (if \<not> apply_only a \<or> process_only a
      then (case process_op k c r of
              Inl e \<Rightarrow> ([matching_process c r], Inl e)
            | Inr x \<Rightarrow>
                (matching_process c r
                   # Print (''SDLS '' @ type_name c @ '' Process Security Result:'')
                   # fst (report (type_name c) x),
                 snd (report (type_name c) x)))
      else ([], Inr ()))"
  by (auto simp: process_step_def call_process_eq bind_io_def emit_def ret_def
        split: sum.splits prod.splits)

lemma process_step_calls:
  "service_calls (fst (process_step k (type_name c) a r)) =
     (if \<not> apply_only a \<or> process_only a then [matching_process c r] else [])"
  "apply_calls (fst (process_step k (type_name c) a r)) = []"
  "process_calls (fst (process_step k (type_name c) a r)) =
     (if \<not> apply_only a \<or> process_only a then [matching_process c r] else [])"
  "filter is_new_client (fst (process_step k (type_name c) a r)) = []"
  by (simp_all add: process_step_eq service_calls_def apply_calls_def process_calls_def
        matching_kinds print_kinds report_events split: sum.splits)

lemma orchestrate_eq:
  "orchestrate k (type_name c) a tc =
     (if \<not> process_only a \<or> apply_only a
      then (case apply_op k c tc of
              Inl e \<Rightarrow> ([matching_apply c tc], Inl e)
            | Inr r \<Rightarrow>
                ([matching_apply c tc,
                  Print (''SDLS TC Apply Security Result:\<newline>'' @ bytes_hex r @ ''\<newline>'')]
                   @ fst (process_step k (type_name c) a r),
                 snd (process_step k (type_name c) a r)))
      else process_step k (type_name c) a tc)"
  by (auto simp: orchestrate_def apply_step_eq bind_io_def split: sum.splits prod.splits)

lemma orchestrate_apply_calls:
  "apply_calls (fst (orchestrate k (type_name c) a tc)) =
     (if \<not> process_only a \<or> apply_only a then [matching_apply c tc] else [])"
  using process_step_calls(2)[of k c a]
  by (auto simp: orchestrate_eq apply_calls_def matching_kinds print_kinds split: sum.splits)

lemma orchestrate_process_calls:
  assumes "\<not> process_only a \<or> apply_only a \<longrightarrow> apply_op k c tc = Inr result"
  shows "process_calls (fst (orchestrate k (type_name c) a tc)) =
           (if \<not> apply_only a \<or> process_only a
            then [matching_process c (if \<not> process_only a \<or> apply_only a then result else tc)]
            else [])"
  using assms process_step_calls(3)[of k c a]
  by (auto simp: orchestrate_eq process_calls_def matching_kinds print_kinds split: sum.splits)

lemma orchestrate_no_process:
  assumes "\<not> (\<not> apply_only a \<or> process_only a)"
  shows "process_calls (fst (orchestrate k (type_name c) a tc)) = []"
  using assms process_step_calls(3)[of k c a]
  by (auto simp: orchestrate_eq process_calls_def matching_kinds print_kinds split: sum.splits)

lemma orchestrate_service_calls:
  "service_calls (fst (orchestrate k (type_name c) a tc)) =
     apply_calls (fst (orchestrate k (type_name c) a tc))
       @ process_calls (fst (orchestrate k (type_name c) a tc))"
  using process_step_calls[of k c a]
  by (auto simp: orchestrate_eq service_calls_def apply_calls_def process_calls_def
        matching_kinds print_kinds split: sum.splits)

lemma orchestrate_no_new_client:
  "filter is_new_client (fst (orchestrate k (type_name c) a tc)) = []"
  using process_step_calls(4)[of k c a]
  by (auto simp: orchestrate_eq matching_kinds print_kinds split: sum.splits)

lemma orchestrate_no_new_client_pair:
  "orchestrate k (type_name c) a tc = (x, y) \<Longrightarrow> filter is_new_client x = []"
  using orchestrate_no_new_client[of k c a tc] by simp

lemma main_reaches_orchestrate:
  assumes "build_frame a = (evs, Inr (f_type, fr))"
    and "new_client (read_props [] (properties a)) = Inr k"
    and "to_hex fr = Inr h" and "unhexlify h = Inr tc"
  shows "fst (main new_client a) =
           evs @ [New_client (read_props [] (properties a)),
                  Print (''Using telecommand transfer frame: \<newline>'' @ h @ ''\<newline>'')]
               @ fst (orchestrate k f_type a tc)"
    and "snd (main new_client a) = snd (orchestrate k f_type a tc)"
  using assms
  by (simp_all add: main_def bind_io_step bind_io_emit bind_io_lift_Inr Let_def)

lemma quiet_prefix:
  assumes "service_calls evs = []"
  shows "apply_calls (evs @ [New_client p, Print s] @ r) = apply_calls r"
    and "process_calls (evs @ [New_client p, Print s] @ r) = process_calls r"
    and "service_calls (evs @ [New_client p, Print s] @ r) = service_calls r"
  using assms
  by (auto simp: service_calls_def apply_calls_def process_calls_def print_kinds
        filter_empty_conv)

lemma main_calls:
  fixes new_client :: "string list \<Rightarrow> error + 'r KmcSdlsClient" and evs :: "'r event list"
  assumes "build_frame a = (evs, Inr (f_type, fr))"
    and "new_client (read_props [] (properties a)) = Inr k"
    and "to_hex fr = Inr h"
    and "unhexlify h = Inr tc"
  shows "apply_calls (fst (main new_client a)) =
           apply_calls (fst (orchestrate k (type_name (cls fr)) a tc))"
    and "process_calls (fst (main new_client a)) =
           process_calls (fst (orchestrate k (type_name (cls fr)) a tc))"
    and "service_calls (fst (main new_client a)) =
           service_calls (fst (orchestrate k (type_name (cls fr)) a tc))"
  unfolding main_reaches_orchestrate(1)[where new_client = new_client, OF assms]
    build_frame_ok(2)[OF assms(1), symmetric]
  by (rule quiet_prefix[OF build_frame_ok(3)[OF assms(1)]])+

lemma main_new_client:
  fixes new_client :: "string list \<Rightarrow> error + 'r KmcSdlsClient" and evs :: "'r event list"
  assumes "build_frame a = (evs, Inr (f_type, fr))"
  shows "filter is_new_client (fst (main new_client a)) = [New_client (read_props [] (properties a))]"
proof -
  have t: "f_type = type_name (cls fr)" and q: "filter is_new_client evs = []"
    using build_frame_ok(2,4)[OF assms] by simp_all
  show ?thesis
    unfolding main_def bind_io_step[OF assms]
    by (auto simp: q t Let_def emit_def lift_def bind_io_def print_kinds
          orchestrate_no_new_client_pair split: prod.splits sum.splits)
qed

lemma example_tc_frame:
  "to_hex TC_init = Inr ''202c0408000001bd37''"
  "unhexlify ''202c0408000001bd37'' = Inr [0x20, 0x2c, 0x04, 0x08, 0x00, 0x00, 0x01, 0xbd, 0x37]"
  by (simp_all add: builtin_defs frame_defs)

subsection \<open>The option parser\<close>

lemma py_int_empty: "py_int [] = None"
  by (simp add: py_int_def int_strip_def split_sign_def)

lemma scid_type_Inr: "scid_type s = Inr v \<Longrightarrow> v = s \<and> s \<noteq> []"
  by (auto simp: scid_type_def py_int_empty Let_def split: option.splits)

lemma vcid_type_Inr: "vcid_type s = Inr v \<Longrightarrow> v = s \<and> s \<noteq> []"
  by (auto simp: vcid_type_def py_int_empty Let_def split: option.splits)

lemma frame_type_Inr: "frame_type s = Inr v \<Longrightarrow> v = s"
  by (auto simp: frame_type_def split: if_splits)

lemma type_funcs_Inl:
  "scid_type s = Inl e \<Longrightarrow> is_argument_error e"
  "vcid_type s = Inl e \<Longrightarrow> is_argument_error e"
  "frame_type s = Inl e \<Longrightarrow> is_argument_error e"
  by (auto simp: scid_type_def vcid_type_def frame_type_def is_argument_error_def Let_def
        split: option.splits if_splits)

lemma convert_Inl:
  "convert scid_type x = Inl e \<Longrightarrow> is_argument_error e"
  "convert vcid_type x = Inl e \<Longrightarrow> is_argument_error e"
  "convert frame_type x = Inl e \<Longrightarrow> is_argument_error e"
  by (auto simp: convert_def dest: type_funcs_Inl split: option.splits sum.splits)

lemma convert_Inr:
  "convert scid_type x = Inr y \<Longrightarrow> y = x \<and> x \<noteq> Some []"
  "convert vcid_type x = Inr y \<Longrightarrow> y = x \<and> x \<noteq> Some []"
  "convert frame_type x = Inr y \<Longrightarrow> y = x"
  by (auto simp: convert_def dest: scid_type_Inr vcid_type_Inr frame_type_Inr
        split: option.splits sum.splits)

lemma parse_args_Inl: "parse_args argv = Inl e \<Longrightarrow> is_argument_error e"
  by (auto simp: parse_args_def dest: convert_Inl split: sum.splits)

lemma parse_args_Inr:
  "parse_args argv = Inr a \<Longrightarrow> a = argv \<and> scid argv \<noteq> Some [] \<and> vcid argv \<noteq> Some []"
  by (auto simp: parse_args_def dest!: convert_Inr split: sum.splits)

lemma build_frame_exclusive:
  assumes "truthy (frame a)" and "truthy (scid a) \<or> truthy (vcid a)"
  shows "\<exists>msg. build_frame a = ([], Inl (ArgumentException msg))"
  using assms
  by (cases "select_frame (type a)")
     (auto simp: build_frame_def check_exclusive_def select_frame_def io_defs Let_def
        split: option.splits if_splits)

subsection \<open>The properties lines\<close>

lemma read_props_acc:
  "read_props acc lines =
     acc @ map rstrip (filter (\<lambda>l. \<not> startswith_hash l \<and> rstrip l \<noteq> []) lines)"
  by (induction lines arbitrary: acc) simp_all

lemma rstrip_split: "\<exists>ws. l = rstrip l @ ws \<and> list_all isspace ws"
proof -
  have "rev l = takeWhile isspace (rev l) @ dropWhile isspace (rev l)" by simp
  then have "l = rev (dropWhile isspace (rev l)) @ rev (takeWhile isspace (rev l))"
    by (metis rev_append rev_rev_ident)
  moreover have "list_all isspace (rev (takeWhile isspace (rev l)))"
    by (simp add: list_all_iff) (meson set_takeWhileD)
  ultimately show ?thesis unfolding rstrip_def by blast
qed

lemma rstrip_last: "rstrip l \<noteq> [] \<Longrightarrow> \<not> isspace (last (rstrip l))"
proof -
  assume ne: "rstrip l \<noteq> []"
  then have d: "dropWhile isspace (rev l) \<noteq> []" by (simp add: rstrip_def)
  then have "\<not> isspace (hd (dropWhile isspace (rev l)))" by (rule hd_dropWhile)
  with d show ?thesis by (simp add: rstrip_def last_rev)
qed

subsection \<open>Bit strings, and the TC header read back\<close>

lemma bit_string_simps [simp]:
  "bit_string []" "bit_string (c # s) \<longleftrightarrow> (c = CHR ''0'' \<or> c = CHR ''1'') \<and> bit_string s"
  "bit_string (s @ t) \<longleftrightarrow> bit_string s \<and> bit_string t"
  "bit_string (replicate k CHR ''0'')"
  by (auto simp: bit_string_def list_all_iff)

lemma foldl_digits:
  "foldl (\<lambda>a d. a * b + d) a0 ys = a0 * b ^ length ys + foldl (\<lambda>a d. a * b + d) (0::nat) ys"
proof (induction ys arbitrary: a0)
  case Nil
  then show ?case by simp
next
  case (Cons y ys)
  have "foldl (\<lambda>a d. a * b + d) a0 (y # ys) = (a0 * b + y) * b ^ length ys + foldl (\<lambda>a d. a * b + d) 0 ys"
    using Cons[of "a0 * b + y"] by simp
  moreover have "foldl (\<lambda>a d. a * b + d) 0 (y # ys) = y * b ^ length ys + foldl (\<lambda>a d. a * b + d) 0 ys"
    using Cons[of y] by simp
  ultimately show ?case
    by (simp only: length_Cons power_Suc distrib_right mult.assoc add.assoc)
qed

lemma digits_value_append:
  "digits_value b (xs @ ys) = digits_value b xs * b ^ length ys + digits_value b ys"
  using foldl_digits[of b "foldl (\<lambda>a d. a * b + d) 0 xs" ys]
  by (simp add: digits_value_def)

lemma bits_value_append:
  "bits_value (s @ t) = bits_value s * 2 ^ length t + bits_value t"
  by (simp add: bits_value_def digits_value_append)

lemma bits_value_simps [simp]:
  "bits_value [] = 0" "bits_value [c] = bit_val c"
  by (simp_all add: bits_value_def digits_value_def)

lemma bits_value_snoc: "bits_value (s @ [c]) = 2 * bits_value s + bit_val c"
  by (simp add: bits_value_append)

lemma bits_value_Cons: "bits_value (c # s) = bit_val c * 2 ^ length s + bits_value s"
  using bits_value_append[of "[c]" s] by simp

lemma bits_value_zeros: "bits_value (replicate k CHR ''0'' @ s) = bits_value s"
  by (induction k) (simp_all add: bits_value_Cons bit_val_def)

lemma bits_value_less: "bits_value s < 2 ^ length s"
proof (induction s rule: rev_induct)
  case Nil
  then show ?case by simp
next
  case (snoc c s)
  have "bit_val c \<le> 1" by (simp add: bit_val_def)
  with snoc show ?case by (simp add: bits_value_snoc)
qed

lemma bin_digits_bits:
  "bit_string (bin_digits v) \<and> bits_value (bin_digits v) = v \<and> bin_digits v \<noteq> []"
proof (induction v rule: bin_digits.induct)
  case (1 n)
  show ?case
  proof (cases "n < 2")
    case True
    then have "n = 0 \<or> n = 1" by auto
    then show ?thesis
      by (auto simp: bin_digits.simps[of n] bin_digits.simps[of 0] bin_digits.simps[of "Suc 0"] digit_char_def bit_val_def)
  next
    case False
    have m: "n mod 2 = 0 \<or> n mod 2 = 1" by auto
    from False 1 have ih: "bit_string (bin_digits (n div 2))"
      "bits_value (bin_digits (n div 2)) = n div 2" by simp_all
    from False have e: "bin_digits n = bin_digits (n div 2) @ [digit_char (n mod 2)]"
      by (simp add: bin_digits.simps[of n])
    from m show ?thesis
    proof
      assume z: "n mod 2 = 0"
      then have "2 * (n div 2) = n" by presburger
      with z ih show ?thesis unfolding e
        by (simp add: bits_value_snoc digit_char_def bit_val_def)
    next
      assume o: "n mod 2 = 1"
      then have "2 * (n div 2) + 1 = n" by presburger
      with o ih show ?thesis unfolding e
        by (simp add: bits_value_snoc digit_char_def bit_val_def)
    qed
  qed
qed

lemma bin_digits_length: "v < 2 ^ w \<Longrightarrow> 0 < w \<Longrightarrow> length (bin_digits v) \<le> w"
proof (induction v arbitrary: w rule: bin_digits.induct)
  case (1 n)
  show ?case
  proof (cases "n < 2")
    case True
    with 1(3) show ?thesis by (simp add: bin_digits.simps[of n])
  next
    case False
    from False 1(2,3) have "1 < w"
      by (cases "w = 1") auto
    then obtain w' where w: "w = Suc w'" and w': "0 < w'" by (cases w) auto
    from 1(2) w have "n < 2 ^ w' * 2" by simp
    then have "n div 2 < 2 ^ w'" by (rule less_mult_imp_div_less)
    from 1(1)[OF False this w'] False w show ?thesis
      by (simp add: bin_digits.simps[of n])
  qed
qed

lemma format_b_bits:
  assumes "0 \<le> n" and "n < 2 ^ w" and "0 < w"
  shows "bit_string (format_b True w n)" and "length (format_b True w n) = w"
    and "bits_value (format_b True w n) = nat n"
proof -
  have lt: "nat \<bar>n\<bar> < 2 ^ w" using assms(1,2)
    by (simp add: nat_less_iff)
  note l = bin_digits_length[OF lt assms(3)]
  have f: "format_b True w n = replicate (w - length (bin_digits (nat \<bar>n\<bar>))) CHR ''0'' @ bin_digits (nat \<bar>n\<bar>)"
    using assms(1) by (simp add: format_b_def Let_def)
  show "bit_string (format_b True w n)" unfolding f by (simp add: bin_digits_bits)
  show "length (format_b True w n) = w" unfolding f using l by simp
  show "bits_value (format_b True w n) = nat n"
    unfolding f using assms(1) by (simp add: bits_value_zeros bin_digits_bits)
qed

text \<open>
  On a non-empty string of bits \<^verbatim>\<open>int(s, 2)\<close> is its binary value: there is no
  whitespace, sign, prefix or underscore to deal with.
\<close>

lemma bit_not_space: "c = CHR ''0'' \<or> c = CHR ''1'' \<Longrightarrow> \<not> int_space c"
  by (auto simp: int_space_def)

lemma bit_string_hd_last:
  assumes "bit_string s" and "s \<noteq> []"
  shows "hd s = CHR ''0'' \<or> hd s = CHR ''1''" and "last s = CHR ''0'' \<or> last s = CHR ''1''"
  using assms by (auto simp: bit_string_def list_all_iff)

lemma int_strip_bits:
  assumes "bit_string s" and "s \<noteq> []"
  shows "int_strip s = s"
proof -
  have "dropWhile int_space s = s"
    using assms bit_string_hd_last(1)[OF assms] by (simp add: dropWhile_eq_self_iff bit_not_space)
  moreover have "dropWhile int_space (rev s) = rev s"
    using assms bit_string_hd_last(2)[OF assms]
    by (simp add: dropWhile_eq_self_iff bit_not_space hd_rev)
  ultimately show ?thesis by (simp add: int_strip_def)
qed

lemma scan_digits_bits:
  "bit_string s \<Longrightarrow> s \<noteq> [] \<Longrightarrow> scan_digits 2 s = Some (map bit_val s)"
proof (induction "2::nat" s rule: scan_digits.induct)
  case 1
  then show ?case by simp
next
  case (2 c)
  then show ?case by (auto simp: digit_of_def bit_val_def)
next
  case (3 c c' cs)
  from 3(3) have c: "c = CHR ''0'' \<or> c = CHR ''1''" and c': "c' \<noteq> CHR ''_''"
    and r: "bit_string (c' # cs)" by auto
  from c have d: "digit_of c = Some (bit_val c)" by (auto simp: digit_of_def bit_val_def)
  have lt: "bit_val c < 2" by (simp add: bit_val_def)
  from 3(2)[OF d[simplified] _ c' r] lt have "scan_digits 2 (c' # cs) = Some (map bit_val (c' # cs))"
    by simp
  with d lt c' show ?case by simp
qed

lemma py_int2_bits:
  assumes "bit_string s" and "s \<noteq> []"
  shows "py_int2 s = Some (int (bits_value s))"
proof -
  from assms obtain c r where s: "s = c # r" by (cases s) auto
  with assms(1) have c: "c = CHR ''0'' \<or> c = CHR ''1''" and r: "bit_string r" by auto
  from c s have sg: "split_sign s = (False, s)" by (auto simp: split_sign_def)
  have pre: "strip_0b s = s"
    using s r by (cases r) (auto simp: strip_0b_def)
  show ?thesis
    by (simp add: py_int2_def int_strip_bits[OF assms] sg pre scan_digits_bits[OF assms]
        bits_value_def)
qed

text \<open>
  A string of \<open>4 * k\<close> bits whose first four bits are not all zero is printed by
  \<^verbatim>\<open>format(n, 'x')\<close> with exactly \<open>k\<close> digits, and these digits give the bits back.
\<close>

lemma hex_bits_append: "hex_bits (xs @ ys) = hex_bits xs @ hex_bits ys"
  by (simp add: hex_bits_def)

lemma nibble_round_trip:
  assumes "bit_string t" and "length t = 4"
  shows "nibble_bits (digit_char (bits_value t)) = t"
proof -
  from assms(2) obtain a b c d where t: "t = [a, b, c, d]"
    by (auto simp: length_Suc_conv numeral_eq_Suc)
  from assms(1) show ?thesis unfolding t
    by (auto simp: bits_value_def digits_value_def bit_val_def digit_char_def nibble_bits_def
        hex_value_of_def format_b_def bin_digits.simps replicate_numeral_Cons)
qed

lemma hex_round_trip:
  "bit_string s \<Longrightarrow> length s = 4 * Suc k \<Longrightarrow> bits_value (take 4 s) \<noteq> 0 \<Longrightarrow>
     hex_bits (hex_digits (bits_value s)) = s \<and> length (hex_digits (bits_value s)) = Suc k"
proof (induction k arbitrary: s)
  case 0
  then have l: "length s = 4" by simp
  have "bits_value s < 16" using bits_value_less[of s] l by simp
  then have "hex_digits (bits_value s) = [digit_char (bits_value s)]"
    by (simp add: hex_digits.simps)
  with nibble_round_trip[OF 0(1) l] show ?case by (simp add: hex_bits_def)
next
  case (Suc k)
  let ?s' = "take (4 * Suc k) s" and ?t = "drop (4 * Suc k) s"
  have s: "s = ?s' @ ?t" by simp
  have ls: "length ?s' = 4 * Suc k" and lt: "length ?t = 4" using Suc(3) by simp_all
  have bs: "bit_string ?s'" and bt: "bit_string ?t"
    using Suc(2) by (metis s bit_string_simps(3))+
  have t4: "take 4 ?s' = take 4 s" by (simp add: min_def)
  have v: "bits_value s = bits_value ?s' * 16 + bits_value ?t"
    using bits_value_append[of ?s' ?t] lt by simp
  have tl: "bits_value ?t < 16" using bits_value_less[of ?t] lt by simp
  from Suc.IH[OF bs ls] Suc(4) t4
  have ih: "hex_bits (hex_digits (bits_value ?s')) = ?s'"
    "length (hex_digits (bits_value ?s')) = Suc k" by simp_all
  have "bits_value ?s' = bits_value (take 4 ?s' @ drop 4 ?s')"
    by (simp only: append_take_drop_id)
  also have "\<dots> = bits_value (take 4 ?s') * 2 ^ length (drop 4 ?s') + bits_value (drop 4 ?s')"
    by (rule bits_value_append)
  finally have pos: "0 < bits_value ?s'" using Suc(4) t4 by simp
  with v have ge: "\<not> bits_value s < 16" by simp
  have dv: "bits_value s div 16 = bits_value ?s'" and md: "bits_value s mod 16 = bits_value ?t"
    using v tl by simp_all
  have h: "hex_digits (bits_value s) = hex_digits (bits_value ?s') @ [digit_char (bits_value ?t)]"
    using ge by (subst hex_digits.simps) (simp add: dv md)
  have "hex_bits (hex_digits (bits_value s)) = ?s' @ ?t"
    unfolding h hex_bits_append ih(1) using nibble_round_trip[OF bt lt] by (simp add: hex_bits_def)
  then show ?case using h ih(2) by simp
qed

text \<open>
  The override branch of \<^verbatim>\<open>TC.to_hex\<close>: with an SC-ID of ten bits and a VC-ID of six
  bits the header has ten hexadecimal digits, as the default header, and holds the two
  fields at bits 6 to 15 and 16 to 21. \<^verbatim>\<open>main\<close> formats such fields from every SC-ID in
  0 to 1023 and every VC-ID in 0 to 63.
\<close>

lemma tc_reassembly:
  assumes "cls fr = TC" and "hex_value fr = None" and "override fr"
    and "bit_string (sc_id fr)" and "length (sc_id fr) = 10"
    and "bit_string (vc_id fr)" and "length (vc_id fr) = 6"
  shows "\<exists>hdr. to_hex fr = Inr (hdr @ frame_body_hex fr) \<and> length hdr = 10
           \<and> hex_bits hdr = ''001000'' @ sc_id fr @ vc_id fr @ ''000000100000000000''"
proof -
  let ?hb = "TC_header_bin fr"
  have hb: "?hb = ''001000'' @ sc_id fr @ vc_id fr @ ''000000100000000000''"
    by (simp add: TC_header_bin_def TC_version_def TC_bypass_flag_def TC_ctrl_cmd_flag_def
        TC_spare_def TC_frame_length_def TC_frame_sequence_number_def)
  have b: "bit_string ?hb" unfolding hb using assms(4,6) by simp
  have l: "length ?hb = 4 * Suc 9" unfolding hb using assms(5,7) by simp
  have "take 4 ?hb = ''0010''" unfolding hb by simp
  then have nz: "bits_value (take 4 ?hb) \<noteq> 0"
    by (simp add: bits_value_def digits_value_def bit_val_def)
  from l have ne: "?hb \<noteq> []" by auto
  note rt = hex_round_trip[OF b l nz]
  have "to_hex fr = Inr (hex_digits (bits_value ?hb) @ frame_body_hex fr)"
    using assms(1,2,3)
    by (simp add: to_hex_def TC_to_hex_def reassemble_def py_int2_bits[OF b ne] format_x_def)
  with rt show ?thesis unfolding hb[symmetric] by simp
qed

lemma tc_override_round_trip:
  assumes "0 \<le> n" and "n \<le> 1023" and "0 \<le> m" and "m \<le> 63"
  shows "\<exists>hdr. to_hex (override_vcid (override_scid TC_init (scid_fmt ''TC'' n)) (vcid_fmt ''TC'' m))
             = Inr (hdr @ frame_body_hex TC_init)
           \<and> length hdr = length (frame_header_hex TC_init)
           \<and> split_fields [6, 10, 6, 18] (hex_bits hdr)
               = [''001000'', scid_fmt ''TC'' n, vcid_fmt ''TC'' m, ''000000100000000000'']"
    and "\<exists>hdr. to_hex (override_scid TC_init (scid_fmt ''TC'' n)) = Inr (hdr @ frame_body_hex TC_init)
           \<and> length hdr = length (frame_header_hex TC_init)
           \<and> split_fields [6, 10, 6, 18] (hex_bits hdr)
               = [''001000'', scid_fmt ''TC'' n, vc_id TC_init, ''000000100000000000'']"
    and "\<exists>hdr. to_hex (override_vcid TC_init (vcid_fmt ''TC'' m)) = Inr (hdr @ frame_body_hex TC_init)
           \<and> length hdr = length (frame_header_hex TC_init)
           \<and> split_fields [6, 10, 6, 18] (hex_bits hdr)
               = [''001000'', sc_id TC_init, vcid_fmt ''TC'' m, ''000000100000000000'']"
    and "py_int2 (scid_fmt ''TC'' n) = Some n" and "py_int2 (vcid_fmt ''TC'' m) = Some m"
proof -
  let ?sc = "scid_fmt ''TC'' n" and ?vc = "vcid_fmt ''TC'' m"
  have sc: "bit_string ?sc" "length ?sc = 10" "bits_value ?sc = nat n"
    using format_b_bits[of n 10] assms(1,2) by (simp_all add: scid_fmt_def)
  have vc: "bit_string ?vc" "length ?vc = 6" "bits_value ?vc = nat m"
    using format_b_bits[of m 6] assms(3,4) by (simp_all add: vcid_fmt_def)
  have d: "bit_string (sc_id TC_init)" "length (sc_id TC_init) = 10"
    "bit_string (vc_id TC_init)" "length (vc_id TC_init) = 6"
    by (simp_all add: TC_init_def)
  show "\<exists>hdr. to_hex (override_vcid (override_scid TC_init ?sc) ?vc) = Inr (hdr @ frame_body_hex TC_init)
           \<and> length hdr = length (frame_header_hex TC_init)
           \<and> split_fields [6, 10, 6, 18] (hex_bits hdr) = [''001000'', ?sc, ?vc, ''000000100000000000'']"
    using tc_reassembly[of "override_vcid (override_scid TC_init ?sc) ?vc"] sc vc
    by (auto simp: override_scid_def override_vcid_def TC_init_def)
  show "\<exists>hdr. to_hex (override_scid TC_init ?sc) = Inr (hdr @ frame_body_hex TC_init)
           \<and> length hdr = length (frame_header_hex TC_init)
           \<and> split_fields [6, 10, 6, 18] (hex_bits hdr) = [''001000'', ?sc, vc_id TC_init, ''000000100000000000'']"
    using tc_reassembly[of "override_scid TC_init ?sc"] sc d
    by (auto simp: override_scid_def TC_init_def)
  show "\<exists>hdr. to_hex (override_vcid TC_init ?vc) = Inr (hdr @ frame_body_hex TC_init)
           \<and> length hdr = length (frame_header_hex TC_init)
           \<and> split_fields [6, 10, 6, 18] (hex_bits hdr) = [''001000'', sc_id TC_init, ?vc, ''000000100000000000'']"
    using tc_reassembly[of "override_vcid TC_init ?vc"] vc d
    by (auto simp: override_vcid_def TC_init_def)
  have "?sc \<noteq> []" "?vc \<noteq> []" using sc(2) vc(2) by auto
  then show "py_int2 ?sc = Some n" "py_int2 ?vc = Some m"
    using py_int2_bits[of ?sc] py_int2_bits[of ?vc] sc vc assms(1,3) by simp_all
qed

section \<open>The claims\<close>

subsection \<open>The frame model\<close>

text \<open>
  C5. With no override applied, \<^verbatim>\<open>to_hex()\<close> of a fresh frame of each of the three
  classes returns that class's literal default frame, header followed by body. For TC
  this is the header 202c040800 followed by the body 0001bd37.
\<close>

theorem default_to_hex:
  "to_hex TC_init = Inr ''202c0408000001bd37''
   \<and> to_hex TC_init = Inr (frame_header_hex TC_init @ frame_body_hex TC_init)
   \<and> frame_header_hex TC_init = ''202c040800'' \<and> frame_body_hex TC_init = ''0001bd37''
   \<and> to_hex TM_init = Inr (frame_header_hex TM_init @ frame_body_hex TM_init)
   \<and> to_hex TM_init = Inr (''4ff000000000'' @ replicate 28 CHR ''0'' @ replicate 128 CHR ''1'' @ replicate 32 CHR ''0'')
   \<and> to_hex AOS_init = Inr (frame_header_hex AOS_init @ frame_body_hex AOS_init)
   \<and> to_hex AOS_init = Inr (''7fc000000000'' @ replicate 28 CHR ''0'' @ replicate 128 CHR ''1'' @ replicate 32 CHR ''0'')"
  by (simp add: frame_defs replicate_numeral_Cons)

text \<open>
  C7. Once \<^verbatim>\<open>override_hex\<close> has set a whole-frame string, \<^verbatim>\<open>to_hex()\<close> returns
  that string unchanged, for a frame in any state: whether the SC-ID or the VC-ID was
  overridden before the whole frame or after it.
\<close>

theorem whole_frame_override_wins:
  "to_hex (override_hex f h) = Inr h
   \<and> to_hex (override_hex (override_scid f s) h) = Inr h
   \<and> to_hex (override_hex (override_vcid f v) h) = Inr h
   \<and> to_hex (override_hex (override_vcid (override_scid f s) v) h) = Inr h
   \<and> to_hex (override_scid (override_hex f h) s) = Inr h
   \<and> to_hex (override_vcid (override_hex f h) v) = Inr h
   \<and> to_hex (override_vcid (override_scid (override_hex f h) s) v) = Inr h"
  by (cases "cls f")
     (simp_all add: to_hex_def TC_to_hex_def TM_to_hex_def AOS_to_hex_def override_hex_def
        override_scid_def override_vcid_def)

text \<open>
  C10. For TC the field-by-field assembly agrees with the literal default: overriding the
  SC-ID with 44 (the ten bits 0000101100), the VC-ID with 1 (the six bits 000001), or
  both, gives the same string 202c0408000001bd37 as \<^verbatim>\<open>to_hex()\<close> of a fresh frame.
\<close>

theorem tc_reassembly_agrees_with_default:
  "scid_fmt ''TC'' 44 = ''0000101100''
   \<and> vcid_fmt ''TC'' 1 = ''000001''
   \<and> to_hex (override_scid TC_init ''0000101100'') = Inr ''202c0408000001bd37''
   \<and> to_hex (override_vcid TC_init ''000001'') = Inr ''202c0408000001bd37''
   \<and> to_hex (override_vcid (override_scid TC_init ''0000101100'') ''000001'') = Inr ''202c0408000001bd37''
   \<and> to_hex (override_scid TC_init ''0000101100'') = to_hex TC_init
   \<and> to_hex (override_vcid TC_init ''000001'') = to_hex TC_init
   \<and> to_hex (override_vcid (override_scid TC_init ''0000101100'') ''000001'') = to_hex TC_init"
  by (simp add: builtin_defs frame_defs scid_fmt_def vcid_fmt_def)

text \<open>
  C2. The claim is that after an SC-ID or VC-ID override \<^verbatim>\<open>to_hex()\<close> succeeds for
  every frame class and gives a header of unchanged length that holds the override. For
  TC it does (\<open>tc_override_round_trip\<close> above). For TM and AOS it does not: the last
  branch of their \<^verbatim>\<open>to_hex\<close> reads the empty string as a binary number, so every field
  override of a TM or AOS frame ends in a \<^verbatim>\<open>ValueError\<close>, whatever the value. A run
  with the type TM and the SC-ID 5, or the type AOS and the VC-ID 3, stops there, after
  the client was constructed.
\<close>

theorem tm_aos_override_raises:
  "to_hex (override_scid TM_init s) = Inl ValueError
   \<and> to_hex (override_vcid TM_init v) = Inl ValueError
   \<and> to_hex (override_vcid (override_scid TM_init s) v) = Inl ValueError
   \<and> to_hex (override_scid AOS_init s) = Inl ValueError
   \<and> to_hex (override_vcid AOS_init v) = Inl ValueError
   \<and> to_hex (override_vcid (override_scid AOS_init s) v) = Inl ValueError
   \<and> run (\<lambda>_. Inr k)
        \<lparr>frame = None, properties = [], process_only = False, apply_only = False,
         scid = Some ''5'', vcid = None, type = Some ''TM''\<rparr>
      = ([Override_scid ''       101'', New_client []], Inl ValueError)
   \<and> run (\<lambda>_. Inr k)
        \<lparr>frame = None, properties = [], process_only = False, apply_only = False,
         scid = None, vcid = Some ''3'', type = Some ''AOS''\<rparr>
      = ([Override_vcid ''000011'', New_client []], Inl ValueError)"
  by (simp add: builtin_defs frame_defs io_defs main_defs)

text \<open>
  C6, as the specification states it, fails: read at the field widths of the tables
  \<^verbatim>\<open>tm_defaults\<close> and \<^verbatim>\<open>aos_defaults\<close>, the default headers of TM and AOS do not
  hold the values of these tables, and the SC-ID of a fresh frame is not the table's.
\<close>

theorem tm_aos_defaults_counterexample:
  "split_fields (map (length \<circ> snd) tm_defaults) (hex_bits (frame_header_hex TM_init)) \<noteq> map snd tm_defaults
   \<and> sc_id TM_init \<noteq> ''0000101100''
   \<and> split_fields (map (length \<circ> snd) aos_defaults) (hex_bits (frame_header_hex AOS_init)) \<noteq> map snd aos_defaults
   \<and> sc_id AOS_init \<noteq> ''00101100''"
  by (simp add: builtin_defs frame_defs notion_defs tm_defaults_def aos_defaults_def)

text \<open>
  C6, amended. The default header of TM, which \<^verbatim>\<open>to_hex()\<close> emits in front of the
  body, holds version 01, SC-ID 0011111111 (255), VC-ID 000 and zeros in the eight other
  fields; the instance fields of a fresh TM frame are the same SC-ID and VC-ID. The default
  header of AOS holds version 01, SC-ID 11111111 (255), VC-ID 000000, a frame count of
  24 zeros, replay flag 0, frame count usage flag 0, spare 00 and cycle 0000; the VC-ID
  of a fresh AOS frame is 000000 and the class attributes of AOS for version, flags, spare
  and cycle have the values of the header. Both headers have 48 bits, the sum of the field
  widths of the tables.
\<close>

theorem tm_aos_default_fields:
  "to_hex TM_init = Inr (frame_header_hex TM_init @ frame_body_hex TM_init)
   \<and> split_fields [2, 10, 3, 1, 8, 8, 1, 1, 1, 2, 11] (hex_bits (frame_header_hex TM_init))
       = [''01'', ''0011111111'', ''000'', ''0'', ''00000000'', ''00000000'', ''0'', ''0'', ''0'',
          ''00'', ''00000000000'']
   \<and> map (length \<circ> snd) tm_defaults = [2, 10, 3, 1, 8, 8, 1, 1, 1, 2, 11]
   \<and> length (hex_bits (frame_header_hex TM_init)) = 48
   \<and> sc_id TM_init = ''0011111111'' \<and> vc_id TM_init = ''000''
   \<and> to_hex AOS_init = Inr (frame_header_hex AOS_init @ frame_body_hex AOS_init)
   \<and> split_fields [2, 8, 6, 24, 1, 1, 2, 4] (hex_bits (frame_header_hex AOS_init))
       = [''01'', ''11111111'', ''000000'', ''000000000000000000000000'', ''0'', ''0'', ''00'',
          ''0000'']
   \<and> map (length \<circ> snd) aos_defaults = [2, 8, 6, 24, 1, 1, 2, 4]
   \<and> length (hex_bits (frame_header_hex AOS_init)) = 48
   \<and> vc_id AOS_init = ''000000''
   \<and> [AOS_version, AOS_replay_flag, AOS_vcfc_flag, AOS_spare, AOS_vcc_cycle]
       = [''01'', ''0'', ''0'', ''00'', ''0000'']"
  by (simp add: builtin_defs frame_defs notion_defs tm_defaults_def aos_defaults_def
        AOS_version_def AOS_replay_flag_def AOS_vcfc_flag_def AOS_spare_def AOS_vcc_cycle_def)

subsection \<open>The option parser\<close>

text \<open>
  C3. The claim is that an SC-ID outside 0 to 1023 and a VC-ID outside 0 to 63 are
  rejected. \<^verbatim>\<open>scid_type\<close> and \<^verbatim>\<open>vcid_type\<close> compute the comparison and drop its
  value, so 1024 and 64 are accepted: the parser returns them, and \<^verbatim>\<open>main\<close> overrides
  the fields of the TC frame with eleven and seven bits.
\<close>

theorem out_of_range_ids_accepted:
  "scid_type ''1024'' = Inr ''1024''
   \<and> vcid_type ''64'' = Inr ''64''
   \<and> parse_args
        \<lparr>frame = None, properties = [], process_only = False, apply_only = False,
         scid = Some ''1024'', vcid = Some ''64'', type = None\<rparr>
      = Inr \<lparr>frame = None, properties = [], process_only = False, apply_only = False,
             scid = Some ''1024'', vcid = Some ''64'', type = None\<rparr>
   \<and> build_frame
        \<lparr>frame = None, properties = [], process_only = False, apply_only = False,
         scid = Some ''1024'', vcid = Some ''64'', type = None\<rparr>
      = ([Override_scid ''10000000000'', Override_vcid ''1000000''],
         Inr (''TC'', override_vcid (override_scid TC_init ''10000000000'') ''1000000''))"
  by (simp add: builtin_defs frame_defs io_defs main_defs)

text \<open>
  C4, as the specification states it, fails for an empty frame string: with the frame
  option given as the empty string and the SC-ID 5, the run raises nothing, overrides the
  SC-ID, constructs the client and calls it.
\<close>

theorem empty_frame_override_counterexample:
  "run (\<lambda>_. Inr loopback_client)
      \<lparr>frame = Some '''', properties = [], process_only = False, apply_only = False,
       scid = Some ''5'', vcid = None, type = None\<rparr>
   = ([Override_scid ''0000000101'',
       New_client [],
       Print ''Using telecommand transfer frame: \<newline>20050408000001bd37\<newline>'',
       Apply_security_tc [0x20, 0x05, 0x04, 0x08, 0x00, 0x00, 0x01, 0xbd, 0x37],
       Print ''SDLS TC Apply Security Result:\<newline>ff20050408000001bd37\<newline>'',
       Process_security_tc [0xFF, 0x20, 0x05, 0x04, 0x08, 0x00, 0x00, 0x01, 0xbd, 0x37],
       Print ''SDLS TC Process Security Result:'',
       Print_tc [0xFF, 0x20, 0x05, 0x04, 0x08, 0x00, 0x00, 0x01, 0xbd, 0x37]],
      Inr ())"
  by (simp add: builtin_defs frame_defs io_defs main_defs loopback_client_def)

text \<open>
  C4, amended. When the command line gives a non-empty whole-frame string and also an
  SC-ID or a VC-ID, the run ends with an argument error (of the parser, or the
  \<^verbatim>\<open>ArgumentException\<close> of \<^verbatim>\<open>main\<close>) and without any event: no override was
  applied to the frame, the client was not constructed and none of its operations was
  called.
\<close>

theorem exclusive_overrides_rejected:
  fixes new_client :: "string list \<Rightarrow> error + 'r KmcSdlsClient"
  assumes "frame argv = Some f" and "f \<noteq> []"
    and "scid argv \<noteq> None \<or> vcid argv \<noteq> None"
  shows "\<exists>e. run new_client argv = ([], Inl e) \<and> is_argument_error e"
proof (cases "parse_args argv")
  case (Inl e)
  then show ?thesis
    by (auto simp: run_def throw_def dest: parse_args_Inl)
next
  case (Inr a)
  from parse_args_Inr[OF Inr] have a: "a = argv"
    and s: "scid argv \<noteq> Some []" and v: "vcid argv \<noteq> Some []" by simp_all
  have "truthy (frame a)" using assms(1,2) a by (simp add: truthy_def)
  moreover have "truthy (scid a) \<or> truthy (vcid a)"
    using assms(3) s v a by (auto simp: truthy_def split: option.splits)
  ultimately obtain msg where
    "build_frame a = ([] :: 'r event list, Inl (ArgumentException msg))"
    using build_frame_exclusive[of a] by blast
  then have "main new_client a = ([], Inl (ArgumentException msg))"
    by (simp add: main_def bind_io_def)
  with Inr show ?thesis
    by (auto simp: run_def is_argument_error_def)
qed

theorem exclusive_overrides_rejected_witness:
  "(\<exists>e. run (\<lambda>_. Inr loopback_client)
      \<lparr>frame = Some ''202c0408000001bd37'', properties = [], process_only = False,
       apply_only = False, scid = Some ''44'', vcid = None, type = None\<rparr> = ([], Inl e)
      \<and> is_argument_error e)
   \<and> run (\<lambda>_. Inr loopback_client)
      \<lparr>frame = Some ''202c0408000001bd37'', properties = [], process_only = False,
       apply_only = False, scid = Some ''44'', vcid = None, type = None\<rparr>
     = ([], Inl (ArgumentException
        ''Can't have both Custom Frame override and (SC_ID or VC_ID) overrides specified at the same time.''))"
proof -
  let ?a = "\<lparr>frame = Some ''202c0408000001bd37'', properties = [], process_only = False,
       apply_only = False, scid = Some ''44'', vcid = None, type = None\<rparr>"
  have h1: "frame ?a = Some ''202c0408000001bd37''" and h2: "''202c0408000001bd37'' \<noteq> []"
    and h3: "scid ?a \<noteq> None \<or> vcid ?a \<noteq> None" by simp_all
  have "run (\<lambda>_. Inr loopback_client) ?a
     = ([], Inl (ArgumentException
        ''Can't have both Custom Frame override and (SC_ID or VC_ID) overrides specified at the same time.''))"
    by (simp add: builtin_defs frame_defs io_defs main_defs)
  with exclusive_overrides_rejected[where new_client = "\<lambda>_. Inr loopback_client", OF h1 h2 h3]
  show ?thesis by simp
qed

subsection \<open>The properties lines\<close>

text \<open>
  C9, as the specification states it, fails: a line with trailing blanks is not passed
  unchanged, and a line of blanks is not empty but is dropped.
\<close>

theorem props_counterexample:
  "read_props [] [''a=b ''] = [''a=b''] \<and> verbatim_props [''a=b ''] = [''a=b '']
   \<and> read_props [] [''  ''] = [] \<and> verbatim_props [''  ''] = [''  '']
   \<and> filter is_new_client (fst (main (\<lambda>_. Inr loopback_client)
        \<lparr>frame = None, properties = [''a=b '', ''  ''], process_only = False, apply_only = False,
         scid = None, vcid = None, type = None\<rparr>)) = [New_client [''a=b'']]"
  by (simp add: builtin_defs frame_defs io_defs main_defs notion_defs)

text \<open>
  C9, amended. The list handed to the constructor of the client consists of the lines of
  the properties file that do not start with \<^verbatim>\<open>#\<close> and are not blank, in their
  order, each without its trailing whitespace and otherwise unchanged: a line is its
  stripped form followed by whitespace only, and a non-empty stripped form does not end in
  whitespace. Once the frame is built, a run constructs the client exactly once, with
  this list.
\<close>

theorem props_stripped_in_order:
  fixes new_client :: "string list \<Rightarrow> error + 'r KmcSdlsClient" and evs :: "'r event list"
  shows "read_props [] lines =
       map rstrip (filter (\<lambda>l. \<not> startswith_hash l \<and> rstrip l \<noteq> []) lines)
   \<and> (\<exists>ws. l = rstrip l @ ws \<and> list_all isspace ws)
   \<and> (rstrip l \<noteq> [] \<longrightarrow> \<not> isspace (last (rstrip l)))
   \<and> (build_frame a = (evs, Inr (f_type, fr)) \<longrightarrow>
        filter is_new_client (fst (main new_client a)) =
          [New_client (map rstrip
             (filter (\<lambda>l. \<not> startswith_hash l \<and> rstrip l \<noteq> []) (properties a)))])"
  using read_props_acc[of "[]"] rstrip_split[of l] rstrip_last[of l]
    main_new_client[where new_client = new_client and evs = evs]
  by simp

theorem props_stripped_in_order_witness:
  "read_props [] [''# comment\<newline>'', ''a=b \<newline>'', ''\<newline>'', ''c=d''] = [''a=b'', ''c=d'']
   \<and> (\<exists>ws. ''a=b \<newline>'' = rstrip ''a=b \<newline>'' @ ws \<and> list_all isspace ws)
   \<and> \<not> isspace (last (rstrip ''a=b \<newline>''))
   \<and> filter is_new_client (fst (main (\<lambda>_. Inr loopback_client)
        \<lparr>frame = None, properties = [''# comment\<newline>'', ''a=b \<newline>'', ''\<newline>'', ''c=d''],
         process_only = False, apply_only = False, scid = None, vcid = None, type = None\<rparr>))
       = [New_client [''a=b'', ''c=d'']]"
proof -
  let ?ls = "[''# comment\<newline>'', ''a=b \<newline>'', ''\<newline>'', ''c=d'']"
  let ?a = "\<lparr>frame = None, properties = ?ls, process_only = False, apply_only = False,
       scid = None, vcid = None, type = None\<rparr>"
  let ?keep = "\<lambda>l. \<not> startswith_hash l \<and> rstrip l \<noteq> []"
  have h1: "build_frame ?a = ([] :: bytes event list, Inr (''TC'', TC_init))"
    by (simp add: builtin_defs io_defs main_defs)
  have h2: "rstrip ''a=b \<newline>'' \<noteq> []"
    by (simp add: builtin_defs)
  have h3: "map rstrip (filter ?keep ?ls) = [''a=b'', ''c=d'']"
    by (simp add: builtin_defs)
  note t = props_stripped_in_order[where new_client = "\<lambda>_. Inr loopback_client"
        and lines = ?ls and l = "''a=b \<newline>''" and a = ?a and evs = "[]"
        and f_type = "''TC''" and fr = TC_init]
  have c1: "read_props [] ?ls = [''a=b'', ''c=d'']"
    using t[THEN conjunct1] by (simp only: h3)
  have c2: "\<exists>ws. ''a=b \<newline>'' = rstrip ''a=b \<newline>'' @ ws \<and> list_all isspace ws"
    by (rule t[THEN conjunct2, THEN conjunct1])
  have c3: "\<not> isspace (last (rstrip ''a=b \<newline>''))"
    by (rule t[THEN conjunct2, THEN conjunct2, THEN conjunct1, THEN mp, OF h2])
  have c4: "filter is_new_client (fst (main (\<lambda>_. Inr loopback_client) ?a))
      = [New_client [''a=b'', ''c=d'']]"
    using t[THEN conjunct2, THEN conjunct2, THEN conjunct2, THEN mp, OF h1]
    by (simp only: cli_args.select_convs h3)
  from c1 c2 c3 c4 show ?thesis by (intro conjI)
qed

subsection \<open>The orchestration of apply and process\<close>

text \<open>
  C1. For a run that reaches the two last steps of \<^verbatim>\<open>main\<close> (the frame is built,
  the client constructed, the frame string decoded to the bytes \<open>tc\<close>): the frame class
  is the configured type; apply-security is called if and only if \<^verbatim>\<open>process_only\<close> is
  false or \<^verbatim>\<open>apply_only\<close> is true, once, on \<open>tc\<close>, by the operation of the frame
  class; and when that call returns, process-security is called if and only if
  \<^verbatim>\<open>apply_only\<close> is false or \<^verbatim>\<open>process_only\<close> is true, once, by the operation of
  the same class, on the result of apply when apply ran and on \<open>tc\<close> otherwise, after the
  apply call. With both flags true this is the same as with both false; with
  \<^verbatim>\<open>apply_only\<close> true and \<^verbatim>\<open>process_only\<close> false process-security is not called,
  whatever apply does.
\<close>

theorem orchestrator_decision:
  fixes new_client :: "string list \<Rightarrow> error + 'r KmcSdlsClient" and evs :: "'r event list"
  assumes "build_frame a = (evs, Inr (f_type, fr))"
    and "new_client (read_props [] (properties a)) = Inr k"
    and "to_hex fr = Inr h"
    and "unhexlify h = Inr tc"
  shows "f_type = configured_type a \<and> f_type = type_name (cls fr)
    \<and> apply_calls (fst (main new_client a)) =
        (if \<not> process_only a \<or> apply_only a then [matching_apply (cls fr) tc] else [])
    \<and> ((\<not> process_only a \<or> apply_only a \<longrightarrow> apply_op k (cls fr) tc = Inr result) \<longrightarrow>
         process_calls (fst (main new_client a)) =
           (if \<not> apply_only a \<or> process_only a
            then [matching_process (cls fr)
                    (if \<not> process_only a \<or> apply_only a then result else tc)]
            else [])
         \<and> service_calls (fst (main new_client a)) =
             apply_calls (fst (main new_client a)) @ process_calls (fst (main new_client a)))
    \<and> (\<not> (\<not> apply_only a \<or> process_only a) \<longrightarrow> process_calls (fst (main new_client a)) = [])"
proof (intro conjI impI)
  show "f_type = configured_type a" by (rule build_frame_ok(1)[OF assms(1)])
  show "f_type = type_name (cls fr)" by (rule build_frame_ok(2)[OF assms(1)])
  show "apply_calls (fst (main new_client a)) =
        (if \<not> process_only a \<or> apply_only a then [matching_apply (cls fr) tc] else [])"
    unfolding main_calls(1)[where new_client = new_client, OF assms] by (rule orchestrate_apply_calls)
next
  assume "\<not> process_only a \<or> apply_only a \<longrightarrow> apply_op k (cls fr) tc = Inr result"
  then show "process_calls (fst (main new_client a)) =
           (if \<not> apply_only a \<or> process_only a
            then [matching_process (cls fr)
                    (if \<not> process_only a \<or> apply_only a then result else tc)]
            else [])"
    unfolding main_calls(2)[where new_client = new_client, OF assms] by (rule orchestrate_process_calls)
next
  show "service_calls (fst (main new_client a)) =
             apply_calls (fst (main new_client a)) @ process_calls (fst (main new_client a))"
    unfolding main_calls[where new_client = new_client, OF assms] by (rule orchestrate_service_calls)
next
  assume "\<not> (\<not> apply_only a \<or> process_only a)"
  then show "process_calls (fst (main new_client a)) = []"
    unfolding main_calls(2)[where new_client = new_client, OF assms]
    by (rule orchestrate_no_process)
qed

theorem orchestrator_decision_witness:
  "apply_calls (fst (main (\<lambda>_. Inr loopback_client)
      \<lparr>frame = None, properties = [''a=b''], process_only = False, apply_only = False,
       scid = None, vcid = None, type = Some ''tc''\<rparr>))
     = [Apply_security_tc [0x20, 0x2c, 0x04, 0x08, 0x00, 0x00, 0x01, 0xbd, 0x37]]
   \<and> process_calls (fst (main (\<lambda>_. Inr loopback_client)
      \<lparr>frame = None, properties = [''a=b''], process_only = False, apply_only = False,
       scid = None, vcid = None, type = Some ''tc''\<rparr>))
     = [Process_security_tc [0xFF, 0x20, 0x2c, 0x04, 0x08, 0x00, 0x00, 0x01, 0xbd, 0x37]]
   \<and> service_calls (fst (main (\<lambda>_. Inr loopback_client)
      \<lparr>frame = None, properties = [''a=b''], process_only = False, apply_only = False,
       scid = None, vcid = None, type = Some ''tc''\<rparr>))
     = [Apply_security_tc [0x20, 0x2c, 0x04, 0x08, 0x00, 0x00, 0x01, 0xbd, 0x37],
        Process_security_tc [0xFF, 0x20, 0x2c, 0x04, 0x08, 0x00, 0x00, 0x01, 0xbd, 0x37]]"
proof -
  let ?a = "\<lparr>frame = None, properties = [''a=b''], process_only = False, apply_only = False,
       scid = None, vcid = None, type = Some ''tc''\<rparr>"
  let ?tc = "[0x20, 0x2c, 0x04, 0x08, 0x00, 0x00, 0x01, 0xbd, 0x37] :: bytes"
  have h1: "build_frame ?a = ([] :: bytes event list, Inr (''TC'', TC_init))"
    by (simp add: builtin_defs io_defs main_defs)
  have h2: "(\<lambda>_. Inr loopback_client) (read_props [] (properties ?a)) = Inr loopback_client"
    by simp
  have h5: "apply_op loopback_client (cls TC_init) ?tc = Inr (0xFF # ?tc)"
    by (simp add: apply_op_def loopback_client_def TC_init_def)
  show ?thesis
    using orchestrator_decision[where new_client = "\<lambda>_. Inr loopback_client" and result = "0xFF # ?tc", OF h1 h2 example_tc_frame] h5
    by (simp add: matching_apply_def matching_process_def TC_init_def)
qed

text \<open>
  C8. With \<^verbatim>\<open>apply_only\<close> false and \<^verbatim>\<open>process_only\<close> true, a run that reaches the
  two last steps calls no apply-security operation, and its only call of the client is
  process-security of the configured type on \<open>tc\<close>, the bytes decoded from
  \<^verbatim>\<open>to_hex()\<close> of the frame.
\<close>

theorem process_only_gets_raw_bytes:
  fixes new_client :: "string list \<Rightarrow> error + 'r KmcSdlsClient" and evs :: "'r event list"
  assumes "build_frame a = (evs, Inr (f_type, fr))"
    and "new_client (read_props [] (properties a)) = Inr k"
    and "to_hex fr = Inr h"
    and "unhexlify h = Inr tc"
    and "\<not> apply_only a" and "process_only a"
  shows "apply_calls (fst (main new_client a)) = []
    \<and> service_calls (fst (main new_client a)) = [matching_process (cls fr) tc]
    \<and> type_name (cls fr) = configured_type a"
proof -
  have c: "\<not> process_only a \<or> apply_only a \<longrightarrow> apply_op k (cls fr) tc = Inr tc"
    using assms(5,6) by simp
  have "type_name (cls fr) = configured_type a"
    using build_frame_ok(1,2)[OF assms(1)] by simp
  then show ?thesis
    unfolding main_calls[where new_client = new_client, OF assms(1-4)] orchestrate_service_calls
      orchestrate_apply_calls orchestrate_process_calls[OF c]
    using assms(5,6) by simp
qed

theorem process_only_gets_raw_bytes_witness:
  "apply_calls (fst (main (\<lambda>_. Inr loopback_client)
      \<lparr>frame = None, properties = [], process_only = True, apply_only = False,
       scid = None, vcid = None, type = None\<rparr>)) = []
   \<and> service_calls (fst (main (\<lambda>_. Inr loopback_client)
      \<lparr>frame = None, properties = [], process_only = True, apply_only = False,
       scid = None, vcid = None, type = None\<rparr>))
     = [Process_security_tc [0x20, 0x2c, 0x04, 0x08, 0x00, 0x00, 0x01, 0xbd, 0x37]]"
proof -
  let ?a = "\<lparr>frame = None, properties = [], process_only = True, apply_only = False,
       scid = None, vcid = None, type = None\<rparr>"
  have h1: "build_frame ?a = ([] :: bytes event list, Inr (''TC'', TC_init))"
    by (simp add: builtin_defs io_defs main_defs)
  have h2: "(\<lambda>_. Inr loopback_client) (read_props [] (properties ?a)) = Inr loopback_client"
    by simp
  have h5: "\<not> apply_only ?a" and h6: "process_only ?a" by simp_all
  show ?thesis
    using process_only_gets_raw_bytes[where new_client = "\<lambda>_. Inr loopback_client", OF h1 h2 example_tc_frame h5 h6]
    by (simp add: matching_process_def TC_init_def)
qed

end
